theory Spec2Isabelle
  imports Complex_Main "HOL-Library.Word" "HOL-Library.Multiset"
begin

section \<open>JavaScript strings and values\<close>

text \<open>
  A JavaScript string is a sequence of 16-bit code units; \<open>length\<close> counts code units, as
  \<^verbatim>\<open>String.prototype.length\<close> does. \<open>js\<close> turns an ASCII literal into such a string.
\<close>

type_synonym code_unit = "16 word"
type_synonym jsstring = "code_unit list"

definition js :: "string \<Rightarrow> jsstring" where
  "js s = map (\<lambda>c. of_nat (of_char c)) s"

text \<open>
  \<^verbatim>\<open>String.prototype.trim\<close> removes the code points of ECMAScript's WhiteSpace and
  LineTerminator productions from both ends: TAB, LF, VT, FF, CR, SP, NBSP, U+1680,
  U+2000 to U+200A, U+2028, U+2029, U+202F, U+205F, U+3000 and U+FEFF.
\<close>

definition isWhiteSpace :: "code_unit \<Rightarrow> bool" where
  "isWhiteSpace u \<longleftrightarrow>
     u \<in> set [0x9, 0xA, 0xB, 0xC, 0xD, 0x20, 0xA0, 0x1680, 0x2028, 0x2029,
              0x202F, 0x205F, 0x3000, 0xFEFF]
     \<or> (0x2000 \<le> u \<and> u \<le> 0x200A)"

definition trim :: "jsstring \<Rightarrow> jsstring" where
  "trim s = rev (dropWhile isWhiteSpace (rev (dropWhile isWhiteSpace s)))"

text \<open>\<^verbatim>\<open>s.replace(/c/g, r)\<close> for a single literal character \<open>c\<close> and a replacement
  text \<open>r\<close> without \<^verbatim>\<open>$\<close> patterns.\<close>

definition replace_g :: "code_unit \<Rightarrow> jsstring \<Rightarrow> jsstring \<Rightarrow> jsstring" where
  "replace_g c r s = concat (map (\<lambda>u. if u = c then r else [u]) s)"

text \<open>\<^verbatim>\<open>xs.join(sep)\<close>\<close>

fun join :: "jsstring \<Rightarrow> jsstring list \<Rightarrow> jsstring" where
  "join sep [] = []"
| "join sep [x] = x"
| "join sep (x # y # ys) = x @ sep @ join sep (y # ys)"

text \<open>
  The values \<^verbatim>\<open>request.json()\<close> can produce, and \<^verbatim>\<open>undefined\<close> for an absent property.
  A number is kept only as far as the code looks at it: whether it is zero, and that it is
  not a string.
\<close>

datatype jsval =
    JUndefined
  | JNull
  | JBool bool
  | JNum rat
  | JStr jsstring
  | JArray "jsval list"
  | JObject "(jsstring \<times> jsval) list"

fun truthy :: "jsval \<Rightarrow> bool" where
  "truthy JUndefined = False"
| "truthy JNull = False"
| "truthy (JBool b) = b"
| "truthy (JNum n) = (n \<noteq> 0)"
| "truthy (JStr s) = (s \<noteq> [])"
| "truthy (JArray xs) = True"
| "truthy (JObject kvs) = True"

text \<open>Reading a property: a TypeError (\<open>None\<close>) on \<^verbatim>\<open>null\<close> and \<^verbatim>\<open>undefined\<close>; on an object
  parsed from JSON the last of several equal keys wins; other values have no such property.\<close>

fun get_prop :: "jsval \<Rightarrow> jsstring \<Rightarrow> jsval option" where
  "get_prop JUndefined k = None"
| "get_prop JNull k = None"
| "get_prop (JObject kvs) k =
     Some (case map_of (rev kvs) k of None \<Rightarrow> JUndefined | Some v \<Rightarrow> v)"
| "get_prop v k = Some JUndefined"

text \<open>\<^verbatim>\<open>v.trim()\<close>: a TypeError (\<open>None\<close>) unless \<open>v\<close> is a string.\<close>

fun trim_method :: "jsval \<Rightarrow> jsstring option" where
  "trim_method (JStr s) = Some (trim s)"
| "trim_method v = None"

section \<open>The worker's helpers (src/index.js)\<close>

text \<open>
  \<^verbatim>\<open>isValidUrl\<close> returns whether \<^verbatim>\<open>new URL(string)\<close> returns normally. The URL constructor
  belongs to the runtime, not to the repository: it is the parameter \<open>new_URL\<close> of every
  function that reaches it (\<open>new_URL v\<close> holds when the constructor accepts \<open>v\<close>).
\<close>

definition isValidUrl :: "(jsval \<Rightarrow> bool) \<Rightarrow> jsval \<Rightarrow> bool" where
  "isValidUrl new_URL string = (if new_URL string then True else False)"

definition sanitizeInput :: "jsstring \<Rightarrow> jsstring" where
  "sanitizeInput input =
     replace_g 0x27 (js ''&#39;'')
       (replace_g 0x22 (js ''&quot;'')
         (replace_g 0x3E (js ''&gt;'')
           (replace_g 0x3C (js ''&lt;'') (trim input))))"

text \<open>The single-pass reading of \<open>sanitizeInput\<close>: what each code unit of the trimmed
  input becomes.\<close>

definition escape_four :: "code_unit \<Rightarrow> jsstring" where
  "escape_four u =
     (if u = 0x3C then js ''&lt;''
      else if u = 0x3E then js ''&gt;''
      else if u = 0x22 then js ''&quot;''
      else if u = 0x27 then js ''&#39;''
      else [u])"

text \<open>The sanitizer as the specification words it: the ampersand is escaped as well (and
  first, so that in a single pass every input character is escaped once).\<close>

definition escape_five :: "code_unit \<Rightarrow> jsstring" where
  "escape_five u = (if u = 0x26 then js ''&amp;'' else escape_four u)"

definition sanitize_spec :: "jsstring \<Rightarrow> jsstring" where
  "sanitize_spec text = concat (map escape_five (trim text))"

section \<open>The comment store (D1) and the environment\<close>

text \<open>
  The table \<^verbatim>\<open>comments\<close> of the schema: \<open>id'\<close> is the INTEGER PRIMARY KEY AUTOINCREMENT
  column \<^verbatim>\<open>id\<close>, \<open>created_at\<close> the timestamp (seconds, in the order of the timestamp
  texts), \<open>status'\<close> the column \<^verbatim>\<open>status\<close>. A \<open>comment\<close> is what the five-column SELECTs
  return; a \<open>row\<close> has the status as well.
\<close>

record comment =
  id' :: nat
  author_name :: jsstring
  comment_content :: jsstring
  created_at :: nat
  page_url :: jsstring

record row = comment +
  status' :: jsstring

datatype statement =
    SelectByPage jsstring
  | InsertComment jsstring jsstring jsstring
  | SelectById nat
  | SelectIdWhere jsstring
  | DeleteWhere jsstring
  | SelectAll

text \<open>
  The database: the rows of the table (the order of the list has no meaning: the table is
  keyed by \<^verbatim>\<open>id\<close>, and the store reads it by ascending id), the AUTOINCREMENT high-water mark,
  the time that CURRENT_TIMESTAMP gives (the handlers do not advance it), whether statements
  succeed (a statement of a store that is down throws), and the statements executed so far.
  Row ids and times are natural numbers; the bounds of 64-bit integers are not modelled.
\<close>

record d1 =
  rows :: "row list"
  seq :: nat
  clock :: nat
  up :: bool
  trace :: "statement list"

definition executed :: "statement \<Rightarrow> d1 \<Rightarrow> d1" where
  "executed st db = db\<lparr>trace := trace db @ [st]\<rparr>"

definition approved_on :: "jsstring \<Rightarrow> row \<Rightarrow> bool" where
  "approved_on pageUrl r \<longleftrightarrow> page_url r = pageUrl \<and> status' r = js ''approved''"

text \<open>
  The order in which the store yields rows for \<^verbatim>\<open>ORDER BY created_at ASC\<close>. The table and both
  indexes of the schema keep rows of equal key by ascending id, so the rows, read by
  ascending id and put in the order of \<open>created_at\<close> without disturbing equal ones, come by
  \<open>created_at\<close> and, where that is equal, by id. \<^verbatim>\<open>ORDER BY created_at DESC\<close> yields the reverse.
\<close>

definition by_created_at_then_id :: "row list \<Rightarrow> row list" where
  "by_created_at_then_id rs = sort_key created_at (sort_key id' rs)"

text \<open>Each statement returns \<open>None\<close> when it throws. \<^verbatim>\<open>SELECT id, author_name,
  comment_content, created_at, page_url FROM comments WHERE page_url = ? AND status =
  'approved' ORDER BY created_at ASC\<close>:\<close>

definition select_by_page :: "jsstring \<Rightarrow> d1 \<Rightarrow> comment list option \<times> d1" where
  "select_by_page pageUrl db =
     (if up db
      then Some (map comment.truncate
                   (by_created_at_then_id (filter (approved_on pageUrl) (rows db))))
      else None,
      executed (SelectByPage pageUrl) db)"

text \<open>\<^verbatim>\<open>INSERT INTO comments (page_url, author_name, comment_content, status) VALUES (?, ?,
  ?, 'approved')\<close>, returning \<^verbatim>\<open>meta.last_row_id\<close>:\<close>

definition insert_comment ::
  "jsstring \<Rightarrow> jsstring \<Rightarrow> jsstring \<Rightarrow> d1 \<Rightarrow> nat option \<times> d1" where
  "insert_comment p a c db =
     (if up db then
        (let n = Suc (fold max (map id' (rows db)) (seq db));
             r = \<lparr>id' = n, author_name = a, comment_content = c, created_at = clock db,
                  page_url = p, status' = js ''approved''\<rparr>
         in (Some n, (executed (InsertComment p a c) db)\<lparr>rows := rows db @ [r], seq := n\<rparr>))
      else (None, executed (InsertComment p a c) db))"

text \<open>\<^verbatim>\<open>SELECT id, author_name, comment_content, created_at, page_url FROM comments WHERE
  id = ?\<close> with \<^verbatim>\<open>.first()\<close>:\<close>

definition select_by_id :: "nat \<Rightarrow> d1 \<Rightarrow> comment option option \<times> d1" where
  "select_by_id n db =
     (if up db then Some (map_option comment.truncate (find (\<lambda>r. id' r = n) (rows db)))
      else None,
      executed (SelectById n) db)"

definition isDigit :: "code_unit \<Rightarrow> bool" where
  "isDigit u \<longleftrightarrow> 0x30 \<le> u \<and> u \<le> 0x39"

text \<open>The number a text of digits is compared as against the INTEGER column \<^verbatim>\<open>id\<close>.\<close>

definition decimal :: "jsstring \<Rightarrow> nat" where
  "decimal s = foldl (\<lambda>n u. 10 * n + (unat u - 48)) 0 s"

text \<open>\<^verbatim>\<open>SELECT id FROM comments WHERE id = ?\<close> with \<^verbatim>\<open>.first()\<close>, and
  \<^verbatim>\<open>DELETE FROM comments WHERE id = ?\<close> (its result is \<^verbatim>\<open>success\<close>):\<close>

definition select_id_where :: "jsstring \<Rightarrow> d1 \<Rightarrow> nat option option \<times> d1" where
  "select_id_where commentId db =
     (if up db then Some (map_option id' (find (\<lambda>r. id' r = decimal commentId) (rows db)))
      else None,
      executed (SelectIdWhere commentId) db)"

definition delete_where :: "jsstring \<Rightarrow> d1 \<Rightarrow> bool \<times> d1" where
  "delete_where commentId db =
     (if up db
      then (True, (executed (DeleteWhere commentId) db)
                    \<lparr>rows := filter (\<lambda>r. id' r \<noteq> decimal commentId) (rows db)\<rparr>)
      else (False, executed (DeleteWhere commentId) db))"

text \<open>\<^verbatim>\<open>SELECT id, author_name, comment_content, created_at, page_url, status FROM
  comments ORDER BY created_at DESC\<close>:\<close>

definition select_all :: "d1 \<Rightarrow> row list option \<times> d1" where
  "select_all db =
     (if up db then Some (rev (by_created_at_then_id (rows db))) else None,
      executed SelectAll db)"

text \<open>
  The bindings of the worker: the database, the variable \<^verbatim>\<open>ADMIN_SECRET_KEY\<close> (absent or
  a string) and the KV namespace \<^verbatim>\<open>SECRETS\<close> that the README's wrangler.toml binds.
\<close>

record env =
  DB :: d1
  ADMIN_SECRET_KEY :: "jsstring option"
  SECRETS :: "(jsstring \<times> jsstring) list"

section \<open>Requests and responses\<close>

text \<open>
  Of a request the worker reads the method (\<open>method'\<close>), the path and the query
  parameters of its URL (\<^verbatim>\<open>searchParams.get\<close> returns the first value of a name), and the
  result of \<^verbatim>\<open>request.json()\<close> (\<open>None\<close> when that throws).
\<close>

record request =
  method' :: jsstring
  pathname :: jsstring
  searchParams :: "(jsstring \<times> jsstring) list"
  json :: "jsval option"

datatype body =
    NoBody
  | Text jsstring
  | ErrorJson jsstring
  | CommentsJson "comment list" nat
  | AllCommentsJson "row list" nat
  | CreatedJson "comment option"
  | SuccessJson jsstring
  | AdminHTML
  | CommentWidgetHTML jsstring

record response =
  status :: nat
  headers :: "(jsstring \<times> jsstring) list"
  body :: body

definition corsHeaders :: "(jsstring \<times> jsstring) list" where
  "corsHeaders =
     [(js ''Access-Control-Allow-Origin'', js ''*''),
      (js ''Access-Control-Allow-Methods'', js ''GET, POST, DELETE, OPTIONS''),
      (js ''Access-Control-Allow-Headers'', js ''Content-Type'')]"

definition handleOptions :: response where
  "handleOptions = \<lparr>status = 200, headers = corsHeaders, body = NoBody\<rparr>"

text \<open>\<^verbatim>\<open>new Response(JSON.stringify(b), {status: st, headers: {'Content-Type':
  'application/json', ...corsHeaders()}})\<close>\<close>

definition json_response :: "nat \<Rightarrow> body \<Rightarrow> response" where
  "json_response st b =
     \<lparr>status = st,
      headers = (js ''Content-Type'', js ''application/json'') # corsHeaders,
      body = b\<rparr>"

section \<open>The handlers\<close>

definition getComments :: "(jsval \<Rightarrow> bool) \<Rightarrow> request \<Rightarrow> env \<Rightarrow> response \<times> env" where
  "getComments new_URL request env =
     (case map_of (searchParams request) (js ''page_url'') of
        None \<Rightarrow> (json_response 400 (ErrorJson (js ''page_url parameter is required'')), env)
      | Some pageUrl \<Rightarrow>
          if pageUrl = [] then
            (json_response 400 (ErrorJson (js ''page_url parameter is required'')), env)
          else if \<not> isValidUrl new_URL (JStr pageUrl) then
            (json_response 400 (ErrorJson (js ''Invalid page_url format'')), env)
          else
            (case select_by_page pageUrl (DB env) of
               (Some results, db) \<Rightarrow>
                 (json_response 200 (CommentsJson results (length results)), env\<lparr>DB := db\<rparr>)
             | (None, db) \<Rightarrow>
                 (json_response 500 (ErrorJson (js ''Failed to retrieve comments'')),
                  env\<lparr>DB := db\<rparr>)))"

text \<open>The validation block of \<^verbatim>\<open>createComment\<close>: the three \<^verbatim>\<open>if\<close> chains, each pushing
  at most one message.\<close>

definition validation_errors ::
  "(jsval \<Rightarrow> bool) \<Rightarrow> jsval \<Rightarrow> jsval \<Rightarrow> jsval \<Rightarrow> jsstring list" where
  "validation_errors new_URL p_url a_name c_content =
     (let errors0 = [];
          errors1 =
            (if \<not> truthy p_url then errors0 @ [js ''page_url is required'']
             else if \<not> isValidUrl new_URL p_url then errors0 @ [js ''Invalid page_url format'']
             else errors0);
          errors2 =
            (if \<not> truthy a_name then errors1 @ [js ''author_name is required'']
             else (case a_name of
                JStr s \<Rightarrow>
                  if length (trim s) = 0 then errors1 @ [js ''author_name cannot be empty'']
                  else if length (trim s) > 100
                  then errors1 @ [js ''author_name must be 100 characters or less'']
                  else errors1
              | _ \<Rightarrow> errors1 @ [js ''author_name cannot be empty'']));
          errors3 =
            (if \<not> truthy c_content then errors2 @ [js ''comment_content is required'']
             else (case c_content of
                JStr s \<Rightarrow>
                  if length (trim s) = 0 then errors2 @ [js ''comment_content cannot be empty'']
                  else if length (trim s) > 1000
                  then errors2 @ [js ''comment_content must be 1000 characters or less'']
                  else errors2
              | _ \<Rightarrow> errors2 @ [js ''comment_content cannot be empty'']))
      in errors3)"

text \<open>The body of the \<^verbatim>\<open>try\<close> of \<^verbatim>\<open>createComment\<close>: \<open>Inl\<close> is a thrown exception, with
  the environment as it is then.\<close>

definition try_createComment ::
  "(jsval \<Rightarrow> bool) \<Rightarrow> request \<Rightarrow> env \<Rightarrow> env + response \<times> env" where
  "try_createComment new_URL request env =
     (case json request of
        None \<Rightarrow> Inl env
      | Some b \<Rightarrow>
          (case (get_prop b (js ''page_url''), get_prop b (js ''author_name''),
                 get_prop b (js ''comment_content'')) of
             (Some p_url, Some a_name, Some c_content) \<Rightarrow>
               (let errors = validation_errors new_URL p_url a_name c_content in
                if length errors > 0 then
                  Inr (json_response 400 (ErrorJson (join (js ''; '') errors)), env)
                else
                  (case (trim_method p_url, trim_method a_name, trim_method c_content) of
                     (Some p, Some a, Some c) \<Rightarrow>
                       (case insert_comment (sanitizeInput p) (sanitizeInput a)
                               (sanitizeInput c) (DB env) of
                          (None, db) \<Rightarrow> Inl (env\<lparr>DB := db\<rparr>)
                        | (Some last_row_id, db) \<Rightarrow>
                            (case select_by_id last_row_id db of
                               (None, db') \<Rightarrow> Inl (env\<lparr>DB := db'\<rparr>)
                             | (Some createdComment, db') \<Rightarrow>
                                 Inr (json_response 201 (CreatedJson createdComment),
                                      env\<lparr>DB := db'\<rparr>)))
                   | _ \<Rightarrow> Inl env))
           | _ \<Rightarrow> Inl env))"

definition createComment :: "(jsval \<Rightarrow> bool) \<Rightarrow> request \<Rightarrow> env \<Rightarrow> response \<times> env" where
  "createComment new_URL request env =
     (case try_createComment new_URL request env of
        Inr result \<Rightarrow> result
      | Inl env' \<Rightarrow> (json_response 500 (ErrorJson (js ''Failed to create comment'')), env'))"

text \<open>\<^verbatim>\<open>env.ADMIN_SECRET_KEY || 'admin-secret-key'\<close> and \<^verbatim>\<open>!secret || secret !==
  adminSecret\<close>, which \<^verbatim>\<open>deleteComment\<close>, \<^verbatim>\<open>getAllComments\<close> and the \<^verbatim>\<open>/admin\<close> route
  each write out.\<close>

definition adminSecret :: "env \<Rightarrow> jsstring" where
  "adminSecret env =
     (case ADMIN_SECRET_KEY env of
        None \<Rightarrow> js ''admin-secret-key''
      | Some k \<Rightarrow> if k = [] then js ''admin-secret-key'' else k)"

definition unauthorized :: "jsstring option \<Rightarrow> jsstring \<Rightarrow> bool" where
  "unauthorized secret admin \<longleftrightarrow>
     (case secret of None \<Rightarrow> True | Some s \<Rightarrow> s = [] \<or> s \<noteq> admin)"

text \<open>\<^verbatim>\<open>/^\d+$/.test(commentId)\<close>\<close>

definition all_digits :: "jsstring \<Rightarrow> bool" where
  "all_digits s \<longleftrightarrow> s \<noteq> [] \<and> list_all isDigit s"

definition deleteComment :: "request \<Rightarrow> env \<Rightarrow> jsstring \<Rightarrow> response \<times> env" where
  "deleteComment request env commentId =
     (if unauthorized (map_of (searchParams request) (js ''secret'')) (adminSecret env) then
        (json_response 401 (ErrorJson (js ''Unauthorized'')), env)
      else if commentId = [] \<or> \<not> all_digits commentId then
        (json_response 400 (ErrorJson (js ''Invalid comment ID'')), env)
      else
        (case select_id_where commentId (DB env) of
           (None, db) \<Rightarrow>
             (json_response 500 (ErrorJson (js ''Failed to delete comment'')), env\<lparr>DB := db\<rparr>)
         | (Some None, db) \<Rightarrow>
             (json_response 404 (ErrorJson (js ''Comment not found'')), env\<lparr>DB := db\<rparr>)
         | (Some (Some existingComment), db) \<Rightarrow>
             (case delete_where commentId db of
                (False, db') \<Rightarrow>
                  (json_response 500 (ErrorJson (js ''Failed to delete comment'')),
                   env\<lparr>DB := db'\<rparr>)
              | (True, db') \<Rightarrow>
                  (json_response 200 (SuccessJson (js ''Comment deleted successfully'')),
                   env\<lparr>DB := db'\<rparr>))))"

definition getAllComments :: "request \<Rightarrow> env \<Rightarrow> response \<times> env" where
  "getAllComments request env =
     (if unauthorized (map_of (searchParams request) (js ''secret'')) (adminSecret env) then
        (json_response 401 (ErrorJson (js ''Unauthorized'')), env)
      else
        (case select_all (DB env) of
           (Some results, db) \<Rightarrow>
             (json_response 200 (AllCommentsJson results (length results)), env\<lparr>DB := db\<rparr>)
         | (None, db) \<Rightarrow>
             (json_response 500 (ErrorJson (js ''Failed to retrieve comments'')),
              env\<lparr>DB := db\<rparr>)))"

text \<open>\<^verbatim>\<open>url.pathname.match(/^\/api\/comments\/(\d+)$/)\<close>: the captured digits, or
  \<open>None\<close> for \<^verbatim>\<open>null\<close>.\<close>

definition deleteMatch :: "jsstring \<Rightarrow> jsstring option" where
  "deleteMatch path =
     (let n = length (js ''/api/comments/'') in
      if take n path = js ''/api/comments/'' \<and> all_digits (drop n path)
      then Some (drop n path) else None)"

text \<open>The main request handler, \<^verbatim>\<open>fetch(request, env, ctx)\<close>.\<close>

definition fetch :: "(jsval \<Rightarrow> bool) \<Rightarrow> request \<Rightarrow> env \<Rightarrow> response \<times> env" where
  "fetch new_URL request env =
     (if method' request = js ''OPTIONS'' then (handleOptions, env)
      else if pathname request = js ''/api/comments'' then
        (if method' request = js ''GET'' then getComments new_URL request env
         else if method' request = js ''POST'' then createComment new_URL request env
         else (\<lparr>status = 405, headers = [], body = Text (js ''Method not allowed'')\<rparr>, env))
      else if pathname request = js ''/api/comments/all'' \<and> method' request = js ''GET'' then
        getAllComments request env
      else if deleteMatch (pathname request) \<noteq> None \<and> method' request = js ''DELETE'' then
        deleteComment request env (the (deleteMatch (pathname request)))
      else if pathname request = js ''/admin'' \<and> method' request = js ''GET'' then
        (if unauthorized (map_of (searchParams request) (js ''secret'')) (adminSecret env) then
           (\<lparr>status = 401, headers = [], body = Text (js ''Unauthorized'')\<rparr>, env)
         else
           (\<lparr>status = 200, headers = (js ''Content-Type'', js ''text/html'') # corsHeaders,
             body = AdminHTML\<rparr>, env))
      else if pathname request = js ''/comment-widget'' \<and> method' request = js ''GET'' then
        (\<lparr>status = 200, headers = (js ''Content-Type'', js ''text/html'') # corsHeaders,
          body = CommentWidgetHTML
                   (case map_of (searchParams request) (js ''page_url'') of
                      None \<Rightarrow> [] | Some p \<Rightarrow> p)\<rparr>, env)
      else
        (\<lparr>status = 200, headers = corsHeaders, body = Text (js ''Blog Comment System API'')\<rparr>,
         env))"

section \<open>Concrete inputs and the specification's wording\<close>

text \<open>
  A concrete URL acceptor for the examples below. It accepts the strings
  \<^verbatim>\<open>http://host\<close> and \<^verbatim>\<open>https://host\<close>, followed by nothing or by a slash and anything, where
  the host is made of lower-case letters and dots and starts and ends with a letter, and
  nothing else. The runtime's URL constructor accepts each of these strings. The theorems
  about all inputs do not use it: they hold for every \<open>new_URL\<close>.
\<close>

definition isLower :: "code_unit \<Rightarrow> bool" where
  "isLower u \<longleftrightarrow> 0x61 \<le> u \<and> u \<le> 0x7A"

definition simple_http_url :: "jsval \<Rightarrow> bool" where
  "simple_http_url v =
     (case v of
        JStr s \<Rightarrow>
          (let rest = (if take 8 s = js ''https://'' then drop 8 s
                       else if take 7 s = js ''http://'' then drop 7 s
                       else []);
               host = takeWhile (\<lambda>u. u \<noteq> 0x2F) rest
           in host \<noteq> [] \<and> isLower (hd host) \<and> isLower (last host)
              \<and> list_all (\<lambda>u. isLower u \<or> u = 0x2E) host)
      | _ \<Rightarrow> False)"

text \<open>The last \<^verbatim>\<open>return\<close> of \<^verbatim>\<open>fetch\<close>, for requests that no route matches.\<close>

definition default_response :: response where
  "default_response =
     \<lparr>status = 200, headers = corsHeaders, body = Text (js ''Blog Comment System API'')\<rparr>"

text \<open>
  The resolution of the admin secret as the specification words it: the value under the
  well-known key of the durable store if present, otherwise the configured fallback,
  otherwise the development default.
\<close>

definition resolve_spec :: "env \<Rightarrow> jsstring" where
  "resolve_spec env =
     (case map_of (SECRETS env) (js ''ADMIN_SECRET_KEY'') of
        Some stored \<Rightarrow> stored
      | None \<Rightarrow>
          (case ADMIN_SECRET_KEY env of
             Some fallback \<Rightarrow> fallback
           | None \<Rightarrow> js ''admin-secret-key''))"

text \<open>Example rows, databases, environments and requests.\<close>

definition example_row :: "nat \<Rightarrow> nat \<Rightarrow> string \<Rightarrow> string \<Rightarrow> row" where
  "example_row n t page st =
     \<lparr>id' = n, author_name = js ''Ann'', comment_content = js ''Hello'', created_at = t,
      page_url = js page, status' = js st\<rparr>"

definition example_db :: "row list \<Rightarrow> d1" where
  "example_db rs = \<lparr>rows = rs, seq = 10, clock = 1000, up = True, trace = []\<rparr>"

definition dev_env :: env where
  "dev_env =
     \<lparr>DB = example_db [example_row 7 900 ''https://example.com/post'' ''approved''],
      ADMIN_SECRET_KEY = None, SECRETS = []\<rparr>"

definition kv_env :: env where
  "kv_env =
     \<lparr>DB = example_db [example_row 7 900 ''https://example.com/post'' ''approved''],
      ADMIN_SECRET_KEY = Some (js ''env-secret''),
      SECRETS = [(js ''ADMIN_SECRET_KEY'', js ''kv-secret-1'')]\<rparr>"

definition example_request ::
  "string \<Rightarrow> string \<Rightarrow> (string \<times> string) list \<Rightarrow> jsval option \<Rightarrow> request" where
  "example_request m path query b =
     \<lparr>method' = js m, pathname = js path,
      searchParams = map (\<lambda>(k, v). (js k, js v)) query, json = b\<rparr>"

text \<open>The validation rules as the specification lists them: \<^verbatim>\<open>page_url\<close> present and
  accepted by the URL parser; \<^verbatim>\<open>author_name\<close> and \<^verbatim>\<open>comment_content\<close> strings whose trimmed
  length is between 1 and the limit. The messages each rule can produce.\<close>

definition page_url_ok :: "(jsval \<Rightarrow> bool) \<Rightarrow> jsval \<Rightarrow> bool" where
  "page_url_ok new_URL v \<longleftrightarrow> truthy v \<and> new_URL v"

definition text_ok :: "nat \<Rightarrow> jsval \<Rightarrow> bool" where
  "text_ok limit v \<longleftrightarrow>
     (case v of JStr s \<Rightarrow> 1 \<le> length (trim s) \<and> length (trim s) \<le> limit | _ \<Rightarrow> False)"

definition page_url_messages :: "jsstring list" where
  "page_url_messages = [js ''page_url is required'', js ''Invalid page_url format'']"

definition author_name_messages :: "jsstring list" where
  "author_name_messages =
     [js ''author_name is required'', js ''author_name cannot be empty'',
      js ''author_name must be 100 characters or less'']"

definition comment_content_messages :: "jsstring list" where
  "comment_content_messages =
     [js ''comment_content is required'', js ''comment_content cannot be empty'',
      js ''comment_content must be 1000 characters or less'']"

definition example_body :: "string \<Rightarrow> string \<Rightarrow> string \<Rightarrow> jsval" where
  "example_body p a c =
     JObject [(js ''page_url'', JStr (js p)), (js ''author_name'', JStr (js a)),
              (js ''comment_content'', JStr (js c))]"



definition empty_env :: env where
  "empty_env = \<lparr>DB = example_db [], ADMIN_SECRET_KEY = None, SECRETS = []\<rparr>"

text \<open>
  What the URL parser of the runtime (the URL Standard's parser, called without a base URL)
  decides before it looks at a host. It strips leading and trailing C0 controls and spaces
  and removes tabs and newlines; a string that does not then start with a scheme (a letter,
  then letters, digits, \<^verbatim>\<open>+\<close>, \<^verbatim>\<open>-\<close> or \<^verbatim>\<open>.\<close>, then a colon) is rejected; a string whose scheme
  is not one of the six special ones and whose rest does not start with a slash is accepted,
  with an opaque path and no host. Every other outcome (special schemes, authorities, values
  that are not strings) is left to the parameter \<open>beyond\<close>.
\<close>

definition isC0OrSpace :: "code_unit \<Rightarrow> bool" where
  "isC0OrSpace u \<longleftrightarrow> u \<le> 0x20"

definition isTabOrNewline :: "code_unit \<Rightarrow> bool" where
  "isTabOrNewline u \<longleftrightarrow> u \<in> set [0x9, 0xA, 0xD]"

definition isAlpha :: "code_unit \<Rightarrow> bool" where
  "isAlpha u \<longleftrightarrow> (0x41 \<le> u \<and> u \<le> 0x5A) \<or> (0x61 \<le> u \<and> u \<le> 0x7A)"

definition isSchemeChar :: "code_unit \<Rightarrow> bool" where
  "isSchemeChar u \<longleftrightarrow> isAlpha u \<or> isDigit u \<or> u \<in> set [0x2B, 0x2D, 0x2E]"

definition toLower :: "code_unit \<Rightarrow> code_unit" where
  "toLower u = (if 0x41 \<le> u \<and> u \<le> 0x5A then u + 0x20 else u)"

definition url_input :: "jsstring \<Rightarrow> jsstring" where
  "url_input s =
     filter (\<lambda>u. \<not> isTabOrNewline u)
       (rev (dropWhile isC0OrSpace (rev (dropWhile isC0OrSpace s))))"

definition url_scheme :: "jsstring \<Rightarrow> (jsstring \<times> jsstring) option" where
  "url_scheme s =
     (let name = takeWhile isSchemeChar (url_input s);
          rest = dropWhile isSchemeChar (url_input s)
      in if name \<noteq> [] \<and> isAlpha (hd name) \<and> rest \<noteq> [] \<and> hd rest = 0x3A
         then Some (map toLower name, tl rest) else None)"

definition special_schemes :: "jsstring list" where
  "special_schemes = [js ''ftp'', js ''file'', js ''http'', js ''https'', js ''ws'', js ''wss'']"

definition whatwg_URL :: "(jsval \<Rightarrow> bool) \<Rightarrow> jsval \<Rightarrow> bool" where
  "whatwg_URL beyond v =
     (case v of
        JStr s \<Rightarrow>
          (case url_scheme s of
             None \<Rightarrow> False
           | Some (scheme, rest) \<Rightarrow>
               if scheme \<notin> set special_schemes \<and> (rest = [] \<or> hd rest \<noteq> 0x2F) then True
               else beyond v)
      | _ \<Rightarrow> beyond v)"

text \<open>The specification's reading of a well-formed page URL: a scheme, then \<^verbatim>\<open>//\<close> and a
  host that is not empty.\<close>

definition scheme_and_host_present :: "jsstring \<Rightarrow> bool" where
  "scheme_and_host_present s \<longleftrightarrow>
     (case url_scheme s of
        None \<Rightarrow> False
      | Some (scheme, rest) \<Rightarrow>
          take 2 rest = js ''//''
          \<and> takeWhile (\<lambda>u. u \<notin> set [0x2F, 0x3F, 0x23]) (drop 2 rest) \<noteq> [])"

section \<open>Properties of the sanitizer\<close>

lemma replace_g_concat:
  "replace_g c r (concat (map f s)) = concat (map (\<lambda>u. replace_g c r (f u)) s)"
  by (induction s) (simp_all add: replace_g_def)

lemma replace_g_as_map: "replace_g c r s = concat (map (\<lambda>u. replace_g c r [u]) s)"
  by (induction s) (simp_all add: replace_g_def)

lemma escape_chain:
  "replace_g 0x27 (js ''&#39;'')
     (replace_g 0x22 (js ''&quot;'')
       (replace_g 0x3E (js ''&gt;'')
         (replace_g 0x3C (js ''&lt;'') [u]))) = escape_four u"
  by (simp add: replace_g_def escape_four_def js_def)

lemma sanitizeInput_single_pass:
  "sanitizeInput input = concat (map escape_four (trim input))"
proof -
  have "sanitizeInput input =
        concat (map (\<lambda>u. replace_g 0x27 (js ''&#39;'')
                         (replace_g 0x22 (js ''&quot;'')
                           (replace_g 0x3E (js ''&gt;'')
                             (replace_g 0x3C (js ''&lt;'') [u])))) (trim input))"
    unfolding sanitizeInput_def
    by (subst replace_g_as_map [of "0x3C"]) (simp only: replace_g_concat)
  then show ?thesis
    by (simp only: escape_chain)
qed

lemma trim_Nil [simp]: "trim [] = []"
  by (simp add: trim_def)

lemma dropWhile_self: "xs \<noteq> [] \<Longrightarrow> \<not> P (hd xs) \<Longrightarrow> dropWhile P xs = xs"
  by (cases xs) simp_all

lemma rev_split: "xs = rev (dropWhile P (rev xs)) @ rev (takeWhile P (rev xs))"
proof -
  have "rev (takeWhile P (rev xs) @ dropWhile P (rev xs)) =
      rev (dropWhile P (rev xs)) @ rev (takeWhile P (rev xs))"
    by (rule rev_append)
  then show ?thesis
    by (simp only: takeWhile_dropWhile_id rev_rev_ident)
qed

lemma trim_split:
  "\<exists>l r. s = l @ trim s @ r \<and> list_all isWhiteSpace l \<and> list_all isWhiteSpace r"
proof -
  let ?l = "takeWhile isWhiteSpace s"
  let ?t = "dropWhile isWhiteSpace s"
  let ?r = "rev (takeWhile isWhiteSpace (rev ?t))"
  have "?t = trim s @ ?r"
    unfolding trim_def by (rule rev_split)
  then have "s = ?l @ trim s @ ?r"
    using takeWhile_dropWhile_id [of isWhiteSpace s] by simp
  moreover have "list_all isWhiteSpace ?l"
    by (simp add: list_all_iff) (meson set_takeWhileD)
  moreover have "list_all isWhiteSpace ?r"
    by (simp add: list_all_iff) (meson set_takeWhileD)
  ultimately show ?thesis
    by blast
qed

lemma trim_ends:
  "trim s = [] \<or> (\<not> isWhiteSpace (hd (trim s)) \<and> \<not> isWhiteSpace (last (trim s)))"
proof (cases "trim s = []")
  case True
  then show ?thesis by simp
next
  case False
  define t where "t = dropWhile isWhiteSpace s"
  define u where "u = dropWhile isWhiteSpace (rev t)"
  have ts: "trim s = rev u"
    by (simp add: trim_def t_def u_def)
  then have u: "u \<noteq> []"
    using False by simp
  then have hu: "\<not> isWhiteSpace (hd u)"
    unfolding u_def by (rule hd_dropWhile)
  have t_split: "t = rev u @ rev (takeWhile isWhiteSpace (rev t))"
    unfolding u_def by (rule rev_split)
  have "t \<noteq> []"
    using u t_split by auto
  then have "\<not> isWhiteSpace (hd t)"
    unfolding t_def by (rule hd_dropWhile)
  moreover have "hd t = hd (rev u)"
    using u by (subst t_split) simp
  ultimately have "\<not> isWhiteSpace (hd (trim s))"
    by (simp add: ts)
  moreover have "\<not> isWhiteSpace (last (trim s))"
    using hu u by (simp add: ts last_rev)
  ultimately show ?thesis
    by simp
qed

lemma trim_trim: "trim (trim s) = trim s"
proof (cases "trim s = []")
  case True
  then show ?thesis by simp
next
  case False
  then have ends: "\<not> isWhiteSpace (hd (trim s))" "\<not> isWhiteSpace (last (trim s))"
    using trim_ends [of s] by simp_all
  have front: "dropWhile isWhiteSpace (trim s) = trim s"
    using False ends(1) by (rule dropWhile_self)
  have "rev (trim s) \<noteq> []" "\<not> isWhiteSpace (hd (rev (trim s)))"
    using False ends(2) by (simp_all add: hd_rev)
  then have rear: "dropWhile isWhiteSpace (rev (trim s)) = rev (trim s)"
    by (rule dropWhile_self)
  show ?thesis
    unfolding trim_def [of "trim s"] by (simp add: front rear)
qed

lemma sanitizeInput_trim: "sanitizeInput (trim s) = sanitizeInput s"
  by (simp add: sanitizeInput_def trim_trim)

text \<open>
  C1 (as amended). For every input string, \<open>sanitizeInput\<close> trims leading and trailing
  whitespace (the input is whitespace, the trimmed text, whitespace, and the trimmed text
  neither starts nor ends with whitespace) and then replaces exactly the four characters
  \<open><\<close>, \<open>>\<close>, the double quote and the apostrophe by \<open>&lt;\<close>, \<open>&gt;\<close>, \<open>&quot;\<close> and
  \<open>&#39;\<close>; every other character, the ampersand included, is kept. The four replacements
  made one after the other agree with a single pass, so no entity produced by one
  replacement is changed by a later one.
\<close>

theorem sanitizeInput_escapes_four:
  "sanitizeInput input = concat (map escape_four (trim input))
   \<and> (\<exists>l r. input = l @ trim input @ r \<and> list_all isWhiteSpace l \<and> list_all isWhiteSpace r)
   \<and> (trim input = []
        \<or> (\<not> isWhiteSpace (hd (trim input)) \<and> \<not> isWhiteSpace (last (trim input))))"
  using sanitizeInput_single_pass trim_split trim_ends by (intro conjI)

text \<open>
  C1 (as stated) fails: the specification's sanitizer turns \<open>a&b\<close> into \<open>a&amp;b\<close>,
  the code returns \<open>a&b\<close> unchanged.
\<close>

theorem sanitizeInput_ampersand_counterexample:
  "sanitizeInput (js ''a&b'') = js ''a&b''
   \<and> sanitize_spec (js ''a&b'') = js ''a&amp;b''
   \<and> sanitizeInput (js ''a&b'') \<noteq> sanitize_spec (js ''a&b'')"
  by (simp add: sanitizeInput_def sanitize_spec_def escape_five_def escape_four_def
      replace_g_def trim_def isWhiteSpace_def js_def)

section \<open>String literals\<close>

lemma code_unit_of_char_inject:
  "((of_nat (of_char c) :: code_unit) = of_nat (of_char d)) = (c = d)"
proof -
  have "(of_char x :: nat) < 2 ^ 16" for x :: char
    by (rule less_trans [OF nat_of_char_less_256]) simp
  then have "take_bit 16 (of_char c :: nat) = of_char c" "take_bit 16 (of_char d :: nat) = of_char d"
    by (simp_all add: take_bit_nat_eq_self)
  then show ?thesis
    by (simp only: word_of_nat_eq_iff len_bit0 len_num1 of_char_eq_iff) simp
qed

lemma js_inject [simp]: "(js a = js b) = (a = b)"
  unfolding js_def
  by (rule inj_map_eq_map) (simp add: inj_on_def code_unit_of_char_inject)

lemma js_Nil [simp]: "js [] = []" "(js s = []) = (s = [])" "([] = js s) = (s = [])"
  by (auto simp: js_def)

lemma js_take [simp]: "take n (js s) = js (take n s)"
  by (simp add: js_def take_map)

lemma js_drop [simp]: "drop n (js s) = js (drop n s)"
  by (simp add: js_def drop_map)

lemma length_js [simp]: "length (js s) = length s"
  by (simp add: js_def)

section \<open>The order of the store\<close>

lemma by_created_at_then_id_Nil [simp]: "by_created_at_then_id [] = []"
  by (simp add: by_created_at_then_id_def)

lemma mset_by_created_at_then_id [simp]: "mset (by_created_at_then_id rs) = mset rs"
  by (simp add: by_created_at_then_id_def)

lemma set_by_created_at_then_id [simp]: "set (by_created_at_then_id rs) = set rs"
  by (simp add: by_created_at_then_id_def)

lemma length_by_created_at_then_id [simp]: "length (by_created_at_then_id rs) = length rs"
  by (simp add: by_created_at_then_id_def)

section \<open>Routing and authorization\<close>

lemma adminSecret_nonempty: "adminSecret env \<noteq> []"
  by (simp add: adminSecret_def js_def split: option.split)

lemma authorized_iff:
  "\<not> unauthorized secret (adminSecret env) \<longleftrightarrow> secret = Some (adminSecret env)"
  using adminSecret_nonempty [of env]
  by (auto simp: unauthorized_def split: option.split)

lemma adminSecret_default:
  "ADMIN_SECRET_KEY env = None \<or> ADMIN_SECRET_KEY env = Some [] \<Longrightarrow>
   adminSecret env = js ''admin-secret-key''"
  by (auto simp: adminSecret_def)

lemma deleteMatch_SomeD:
  "deleteMatch path = Some cid \<Longrightarrow>
   path = js ''/api/comments/'' @ cid \<and> all_digits cid"
  by (auto simp: deleteMatch_def Let_def split: if_splits dest: sym)

lemma deleteMatch_not_collection:
  "deleteMatch path = Some cid \<Longrightarrow> path \<noteq> js ''/api/comments''"
  by (auto simp: deleteMatch_def Let_def js_def all_digits_def split: if_splits)

lemma fetch_delete_route:
  "method' request = js ''DELETE'' \<Longrightarrow> deleteMatch (pathname request) = Some cid \<Longrightarrow>
   fetch new_URL request env = deleteComment request env cid"
  using deleteMatch_not_collection [of "pathname request" cid]
  by (simp add: fetch_def)

lemma fetch_all_route:
  "method' request = js ''GET'' \<Longrightarrow> pathname request = js ''/api/comments/all'' \<Longrightarrow>
   fetch new_URL request env = getAllComments request env"
  by (simp add: fetch_def)

lemma fetch_admin_route:
  "method' request = js ''GET'' \<Longrightarrow> pathname request = js ''/admin'' \<Longrightarrow>
   fetch new_URL request env =
     (if unauthorized (map_of (searchParams request) (js ''secret'')) (adminSecret env)
      then (\<lparr>status = 401, headers = [], body = Text (js ''Unauthorized'')\<rparr>, env)
      else (\<lparr>status = 200, headers = (js ''Content-Type'', js ''text/html'') # corsHeaders,
             body = AdminHTML\<rparr>, env))"
  by (simp add: fetch_def deleteMatch_def all_digits_def)

lemma deleteComment_status:
  "status (fst (deleteComment request env cid)) \<in> {200, 400, 401, 404, 500}"
  by (simp add: deleteComment_def json_response_def select_id_where_def delete_where_def
      split: prod.split option.split bool.split)

lemma deleteComment_unauthorized:
  "unauthorized (map_of (searchParams request) (js ''secret'')) (adminSecret env) \<Longrightarrow>
   deleteComment request env cid = (json_response 401 (ErrorJson (js ''Unauthorized'')), env)"
  by (simp add: deleteComment_def)

lemma deleteComment_authorized_status:
  "\<not> unauthorized (map_of (searchParams request) (js ''secret'')) (adminSecret env) \<Longrightarrow>
   status (fst (deleteComment request env cid)) \<noteq> 401"
  by (simp add: deleteComment_def json_response_def select_id_where_def delete_where_def
      split: prod.split option.split bool.split)

lemma getAllComments_status:
  "status (fst (getAllComments request env)) = 401 \<longleftrightarrow>
   unauthorized (map_of (searchParams request) (js ''secret'')) (adminSecret env)"
  by (simp add: getAllComments_def json_response_def select_all_def split: prod.split option.split)

lemma find_absent: "x \<notin> set (map f xs) \<Longrightarrow> find (\<lambda>r. f r = x) xs = None"
  by (induction xs) auto

lemma find_present:
  "x \<in> set (map f xs) \<Longrightarrow> \<exists>r. find (\<lambda>r. f r = x) xs = Some r"
  by (induction xs) auto

lemma deleteComment_deletes:
  assumes "\<not> unauthorized (map_of (searchParams request) (js ''secret'')) (adminSecret env)"
    and "all_digits commentId" and "up (DB env)"
    and "decimal commentId \<in> set (map id' (rows (DB env)))"
  shows "fst (deleteComment request env commentId) =
       json_response 200 (SuccessJson (js ''Comment deleted successfully''))
     \<and> rows (DB (snd (deleteComment request env commentId))) =
         filter (\<lambda>r. id' r \<noteq> decimal commentId) (rows (DB env))"
proof -
  obtain r where "find (\<lambda>r. id' r = decimal commentId) (rows (DB env)) = Some r"
    using find_present [OF assms(4)] by blast
  then show ?thesis
    using assms(1-3)
    by (simp add: deleteComment_def select_id_where_def delete_where_def executed_def
        all_digits_def)
qed

lemma getAllComments_lists:
  assumes "\<not> unauthorized (map_of (searchParams request) (js ''secret'')) (adminSecret env)"
    and "up (DB env)"
  shows "\<exists>results. fst (getAllComments request env) =
       json_response 200 (AllCommentsJson results (length results))
     \<and> mset results = mset (rows (DB env))"
  using assms
  by (intro exI [of _ "rev (by_created_at_then_id (rows (DB env)))"])
     (simp add: getAllComments_def select_all_def)

text \<open>
  C10. Whenever the variable \<^verbatim>\<open>ADMIN_SECRET_KEY\<close> is absent or the empty string, each of the
  three admin-gated operations (DELETE on a comment id, GET /api/comments/all, GET /admin)
  answers something other than 401 exactly for the requests whose \<^verbatim>\<open>secret\<close> parameter is the
  hard-coded \<^verbatim>\<open>admin-secret-key\<close>. The development default is reachable and opens moderation:
  with it and a working store, the DELETE of an existing id answers 200 and removes the row,
  and GET /api/comments/all answers 200 with every row.
\<close>

theorem default_secret_gates_admin:
  assumes "ADMIN_SECRET_KEY env = None \<or> ADMIN_SECRET_KEY env = Some []"
  shows
    "(method' request = js ''DELETE'' \<and> deleteMatch (pathname request) \<noteq> None \<longrightarrow>
        (status (fst (fetch new_URL request env)) \<noteq> 401) =
        (map_of (searchParams request) (js ''secret'') = Some (js ''admin-secret-key'')))
   \<and> (method' request = js ''GET'' \<and> pathname request = js ''/api/comments/all'' \<longrightarrow>
        (status (fst (fetch new_URL request env)) \<noteq> 401) =
        (map_of (searchParams request) (js ''secret'') = Some (js ''admin-secret-key'')))
   \<and> (method' request = js ''GET'' \<and> pathname request = js ''/admin'' \<longrightarrow>
        (status (fst (fetch new_URL request env)) \<noteq> 401) =
        (map_of (searchParams request) (js ''secret'') = Some (js ''admin-secret-key'')))
   \<and> (method' request = js ''DELETE'' \<and> deleteMatch (pathname request) = Some commentId
        \<and> map_of (searchParams request) (js ''secret'') = Some (js ''admin-secret-key'')
        \<and> up (DB env) \<and> decimal commentId \<in> set (map id' (rows (DB env))) \<longrightarrow>
        status (fst (fetch new_URL request env)) = 200
        \<and> rows (DB (snd (fetch new_URL request env))) =
            filter (\<lambda>r. id' r \<noteq> decimal commentId) (rows (DB env)))
   \<and> (method' request = js ''GET'' \<and> pathname request = js ''/api/comments/all''
        \<and> map_of (searchParams request) (js ''secret'') = Some (js ''admin-secret-key'')
        \<and> up (DB env) \<longrightarrow>
        (\<exists>results. fst (fetch new_URL request env) =
            json_response 200 (AllCommentsJson results (length results))
          \<and> mset results = mset (rows (DB env))))"
proof -
  let ?secret = "map_of (searchParams request) (js ''secret'')"
  have auth: "(\<not> unauthorized ?secret (adminSecret env)) = (?secret = Some (js ''admin-secret-key''))"
    using authorized_iff [of ?secret env] adminSecret_default [OF assms] by simp
  have del: "method' request = js ''DELETE'' \<Longrightarrow> deleteMatch (pathname request) = Some cid \<Longrightarrow>
        (status (fst (fetch new_URL request env)) \<noteq> 401) =
        (\<not> unauthorized ?secret (adminSecret env))" for cid
    using deleteComment_unauthorized [of request env cid]
      deleteComment_authorized_status [of request env cid]
    by (cases "unauthorized ?secret (adminSecret env)")
       (simp_all add: fetch_delete_route json_response_def)
  have all: "method' request = js ''GET'' \<Longrightarrow> pathname request = js ''/api/comments/all'' \<Longrightarrow>
        (status (fst (fetch new_URL request env)) \<noteq> 401) =
        (\<not> unauthorized ?secret (adminSecret env))"
    by (simp add: fetch_all_route getAllComments_status)
  have adm: "method' request = js ''GET'' \<Longrightarrow> pathname request = js ''/admin'' \<Longrightarrow>
        (status (fst (fetch new_URL request env)) \<noteq> 401) =
        (\<not> unauthorized ?secret (adminSecret env))"
    by (simp add: fetch_admin_route)
  have gates: "(method' request = js ''DELETE'' \<and> deleteMatch (pathname request) \<noteq> None \<longrightarrow>
        (status (fst (fetch new_URL request env)) \<noteq> 401) =
        (?secret = Some (js ''admin-secret-key'')))
   \<and> (method' request = js ''GET'' \<and> pathname request = js ''/api/comments/all'' \<longrightarrow>
        (status (fst (fetch new_URL request env)) \<noteq> 401) =
        (?secret = Some (js ''admin-secret-key'')))
   \<and> (method' request = js ''GET'' \<and> pathname request = js ''/admin'' \<longrightarrow>
        (status (fst (fetch new_URL request env)) \<noteq> 401) =
        (?secret = Some (js ''admin-secret-key'')))"
    using del all adm by (auto simp: auth)
  have deletes: "method' request = js ''DELETE'' \<and> deleteMatch (pathname request) = Some commentId
        \<and> ?secret = Some (js ''admin-secret-key'')
        \<and> up (DB env) \<and> decimal commentId \<in> set (map id' (rows (DB env))) \<longrightarrow>
        status (fst (fetch new_URL request env)) = 200
        \<and> rows (DB (snd (fetch new_URL request env))) =
            filter (\<lambda>r. id' r \<noteq> decimal commentId) (rows (DB env))"
  proof
    assume h: "method' request = js ''DELETE'' \<and> deleteMatch (pathname request) = Some commentId
        \<and> ?secret = Some (js ''admin-secret-key'')
        \<and> up (DB env) \<and> decimal commentId \<in> set (map id' (rows (DB env)))"
    then have route: "fetch new_URL request env = deleteComment request env commentId"
      by (simp add: fetch_delete_route)
    have "\<not> unauthorized ?secret (adminSecret env)" "all_digits commentId"
      using h auth deleteMatch_SomeD [of "pathname request" commentId] by simp_all
    then show "status (fst (fetch new_URL request env)) = 200
        \<and> rows (DB (snd (fetch new_URL request env))) =
            filter (\<lambda>r. id' r \<noteq> decimal commentId) (rows (DB env))"
      using deleteComment_deletes [of request env commentId] h
      by (simp add: route json_response_def)
  qed
  have lists: "method' request = js ''GET'' \<and> pathname request = js ''/api/comments/all''
        \<and> ?secret = Some (js ''admin-secret-key'') \<and> up (DB env) \<longrightarrow>
        (\<exists>results. fst (fetch new_URL request env) =
            json_response 200 (AllCommentsJson results (length results))
          \<and> mset results = mset (rows (DB env)))"
  proof
    assume h: "method' request = js ''GET'' \<and> pathname request = js ''/api/comments/all''
        \<and> ?secret = Some (js ''admin-secret-key'') \<and> up (DB env)"
    then have route: "fetch new_URL request env = getAllComments request env"
      by (simp add: fetch_all_route)
    have "\<not> unauthorized ?secret (adminSecret env)"
      using h auth by simp
    then show "\<exists>results. fst (fetch new_URL request env) =
            json_response 200 (AllCommentsJson results (length results))
          \<and> mset results = mset (rows (DB env))"
      using getAllComments_lists [of request env] h by (simp add: route)
  qed
  show ?thesis
    using gates deletes lists by (intro conjI) simp_all
qed

theorem default_secret_gates_admin_witness:
  "ADMIN_SECRET_KEY dev_env = None
   \<and> status (fst (fetch simple_http_url
        (example_request ''DELETE'' ''/api/comments/7'' [(''secret'', ''guess'')] None)
        dev_env)) = 401
   \<and> status (fst (fetch simple_http_url
        (example_request ''DELETE'' ''/api/comments/7'' [(''secret'', ''admin-secret-key'')] None)
        dev_env)) = 200
   \<and> rows (DB (snd (fetch simple_http_url
        (example_request ''DELETE'' ''/api/comments/7'' [(''secret'', ''admin-secret-key'')] None)
        dev_env))) = []
   \<and> status (fst (fetch simple_http_url
        (example_request ''GET'' ''/api/comments/all'' [(''secret'', ''admin-secret-key'')] None)
        dev_env)) \<noteq> 401
   \<and> status (fst (fetch simple_http_url
        (example_request ''GET'' ''/admin'' [(''secret'', ''admin-secret-key'')] None)
        dev_env)) \<noteq> 401"
proof -
  let ?guess = "example_request ''DELETE'' ''/api/comments/7'' [(''secret'', ''guess'')] None"
  let ?del = "example_request ''DELETE'' ''/api/comments/7'' [(''secret'', ''admin-secret-key'')]
      None"
  let ?all = "example_request ''GET'' ''/api/comments/all'' [(''secret'', ''admin-secret-key'')]
      None"
  let ?adm = "example_request ''GET'' ''/admin'' [(''secret'', ''admin-secret-key'')] None"
  have key: "ADMIN_SECRET_KEY dev_env = None \<or> ADMIN_SECRET_KEY dev_env = Some []"
    by (simp add: dev_env_def)
  have dm: "deleteMatch (js ''/api/comments/7'') = Some (js ''7'')"
    by (simp add: deleteMatch_def all_digits_def isDigit_def js_def)
  have store: "up (DB dev_env)" "decimal (js ''7'') \<in> set (map id' (rows (DB dev_env)))"
    "filter (\<lambda>r. id' r \<noteq> decimal (js ''7'')) (rows (DB dev_env)) = []"
    by (simp_all add: dev_env_def example_db_def example_row_def decimal_def js_def)
  have reqs: "method' ?guess = js ''DELETE''" "pathname ?guess = js ''/api/comments/7''"
    "map_of (searchParams ?guess) (js ''secret'') = Some (js ''guess'')"
    "method' ?del = js ''DELETE''" "pathname ?del = js ''/api/comments/7''"
    "map_of (searchParams ?del) (js ''secret'') = Some (js ''admin-secret-key'')"
    "method' ?all = js ''GET''" "pathname ?all = js ''/api/comments/all''"
    "map_of (searchParams ?all) (js ''secret'') = Some (js ''admin-secret-key'')"
    "method' ?adm = js ''GET''" "pathname ?adm = js ''/admin''"
    "map_of (searchParams ?adm) (js ''secret'') = Some (js ''admin-secret-key'')"
    by (simp_all add: example_request_def)
  show ?thesis
    using default_secret_gates_admin [OF key, where request = ?guess
        and new_URL = simple_http_url and commentId = "js ''7''"]
      default_secret_gates_admin [OF key, where request = ?del
        and new_URL = simple_http_url and commentId = "js ''7''"]
      default_secret_gates_admin [OF key, where request = ?all
        and new_URL = simple_http_url and commentId = "js ''7''"]
      default_secret_gates_admin [OF key, where request = ?adm
        and new_URL = simple_http_url and commentId = "js ''7''"]
    by (simp add: reqs dm store)
       (simp add: dev_env_def example_db_def example_row_def decimal_def js_def)
qed

text \<open>
  C5. For DELETE /api/comments/:id the secret is checked before the comment is looked up:
  with a missing or incorrect secret the answer is 401 and nothing is read or changed,
  whether the id exists or not; with the correct secret, a working store and an id that no
  row has, the answer is 404 and the rows are unchanged.
\<close>

theorem delete_checks_secret_before_existence:
  assumes "method' request = js ''DELETE''"
    and "deleteMatch (pathname request) = Some commentId"
  shows
    "(map_of (searchParams request) (js ''secret'') \<noteq> Some (adminSecret env) \<longrightarrow>
        fetch new_URL request env = (json_response 401 (ErrorJson (js ''Unauthorized'')), env))
   \<and> (map_of (searchParams request) (js ''secret'') = Some (adminSecret env)
        \<and> up (DB env) \<and> decimal commentId \<notin> set (map id' (rows (DB env))) \<longrightarrow>
        fst (fetch new_URL request env) = json_response 404 (ErrorJson (js ''Comment not found''))
        \<and> rows (DB (snd (fetch new_URL request env))) = rows (DB env))"
proof -
  let ?secret = "map_of (searchParams request) (js ''secret'')"
  have route: "fetch new_URL request env = deleteComment request env commentId"
    using assms by (rule fetch_delete_route)
  have digits: "commentId \<noteq> []" "all_digits commentId"
    using deleteMatch_SomeD [OF assms(2)] by (simp_all add: all_digits_def)
  have denied: "?secret \<noteq> Some (adminSecret env) \<Longrightarrow>
      deleteComment request env commentId = (json_response 401 (ErrorJson (js ''Unauthorized'')), env)"
    using authorized_iff [of ?secret env] by (simp add: deleteComment_unauthorized)
  have missing: "?secret = Some (adminSecret env) \<Longrightarrow> up (DB env) \<Longrightarrow>
      decimal commentId \<notin> set (map id' (rows (DB env))) \<Longrightarrow>
      deleteComment request env commentId =
        (json_response 404 (ErrorJson (js ''Comment not found'')),
         env\<lparr>DB := executed (SelectIdWhere commentId) (DB env)\<rparr>)"
    using authorized_iff [of ?secret env] digits
    by (simp add: deleteComment_def select_id_where_def find_absent)
  show ?thesis
    using denied missing by (auto simp: route executed_def)
qed

theorem delete_checks_secret_before_existence_witness:
  "fetch simple_http_url (example_request ''DELETE'' ''/api/comments/7'' [] None) kv_env =
     (json_response 401 (ErrorJson (js ''Unauthorized'')), kv_env)
   \<and> fetch simple_http_url
       (example_request ''DELETE'' ''/api/comments/9999999'' [(''secret'', ''wrong'')] None) kv_env =
     (json_response 401 (ErrorJson (js ''Unauthorized'')), kv_env)
   \<and> fst (fetch simple_http_url
       (example_request ''DELETE'' ''/api/comments/9999999'' [(''secret'', ''env-secret'')] None)
       kv_env) = json_response 404 (ErrorJson (js ''Comment not found''))"
proof -
  have m: "method' (example_request ''DELETE'' p q None) = js ''DELETE''" for p q
    by (simp add: example_request_def)
  have d7: "deleteMatch (pathname (example_request ''DELETE'' ''/api/comments/7'' q None)) =
      Some (js ''7'')" for q
    by (simp add: example_request_def deleteMatch_def all_digits_def isDigit_def js_def)
  have d9: "deleteMatch (pathname (example_request ''DELETE'' ''/api/comments/9999999'' q None)) =
      Some (js ''9999999'')" for q
    by (simp add: example_request_def deleteMatch_def all_digits_def isDigit_def js_def)
  have s: "adminSecret kv_env = js ''env-secret''"
    by (simp add: adminSecret_def kv_env_def js_def)
  have absent: "decimal (js ''9999999'') \<notin> set (map id' (rows (DB kv_env)))"
    by (simp add: decimal_def kv_env_def example_db_def example_row_def js_def)
  have u: "up (DB kv_env)"
    by (simp add: kv_env_def example_db_def)
  show ?thesis
    using delete_checks_secret_before_existence [OF m d7, of "[]" kv_env simple_http_url]
      delete_checks_secret_before_existence [OF m d9, of "[(''secret'', ''wrong'')]" kv_env
        simple_http_url]
      delete_checks_secret_before_existence [OF m d9, of "[(''secret'', ''env-secret'')]" kv_env
        simple_http_url]
      absent u
    by (simp add: s) (simp add: example_request_def js_def)
qed

text \<open>Every DELETE request whose path the route pattern does not match (and that is not for
  \<^verbatim>\<open>/api/comments\<close> itself) gets the default answer.\<close>

lemma delete_unmatched_gets_default:
  "method' request = js ''DELETE'' \<Longrightarrow> deleteMatch (pathname request) = None \<Longrightarrow>
   pathname request \<noteq> js ''/api/comments'' \<Longrightarrow>
   fetch new_URL request env = (default_response, env)"
  by (simp add: fetch_def default_response_def)

text \<open>
  C6 fails on the code. A DELETE request whose id segment is not made of digits is never
  passed to \<^verbatim>\<open>deleteComment\<close>: the route's pattern does not match, and the request gets the
  default answer, status 200, even with the correct secret. The branch of
  \<^verbatim>\<open>deleteComment\<close> that answers 400 for such an id exists and is unreachable from \<^verbatim>\<open>fetch\<close>.
\<close>

theorem delete_non_numeric_id_falls_through:
  "fetch new_URL
     (example_request ''DELETE'' ''/api/comments/abc'' [(''secret'', ''admin-secret-key'')] None)
     dev_env = (default_response, dev_env)
   \<and> deleteComment
     (example_request ''DELETE'' ''/api/comments/abc'' [(''secret'', ''admin-secret-key'')] None)
     dev_env (js ''abc'') = (json_response 400 (ErrorJson (js ''Invalid comment ID'')), dev_env)"
  by (simp add: fetch_def deleteComment_def default_response_def example_request_def
        deleteMatch_def all_digits_def isDigit_def unauthorized_def adminSecret_def dev_env_def)
     (simp add: js_def isDigit_def)

text \<open>Every request for \<^verbatim>\<open>/setup\<close> other than a preflight gets the default answer, whatever its
  method and body.\<close>

lemma setup_requests_get_default:
  "pathname request = js ''/setup'' \<Longrightarrow> method' request \<noteq> js ''OPTIONS'' \<Longrightarrow>
   fetch new_URL request env = (default_response, env)"
  by (simp add: fetch_def default_response_def deleteMatch_def all_digits_def)

text \<open>
  C3 fails on the code. \<^verbatim>\<open>fetch\<close> has no route for /setup: a POST to it with a new secret of
  five characters gets the default answer, status 200, instead of 400, and the environment
  is left as it was, whatever it is.
\<close>

theorem setup_route_is_not_handled:
  "fetch new_URL
     (example_request ''POST'' ''/setup'' []
        (Some (JObject [(js ''newSecret'', JStr (js ''short''))])))
     env = (default_response, env)"
  by (simp add: fetch_def default_response_def example_request_def
        deleteMatch_def all_digits_def isDigit_def)

text \<open>The admin secret does not depend on what the KV namespace holds.\<close>

lemma adminSecret_ignores_SECRETS: "adminSecret (env\<lparr>SECRETS := kv\<rparr>) = adminSecret env"
  by (simp add: adminSecret_def)

text \<open>
  C2 fails on the code. The handlers compute the admin secret from the variable
  \<^verbatim>\<open>ADMIN_SECRET_KEY\<close> alone. Where the durable store holds \<^verbatim>\<open>kv-secret-1\<close> and the variable is
  \<^verbatim>\<open>env-secret\<close>, the specification resolves to the stored value, the code to the variable,
  and a request carrying the stored value is refused.
\<close>

theorem admin_secret_ignores_kv_store:
  "resolve_spec kv_env = js ''kv-secret-1''
   \<and> adminSecret kv_env = js ''env-secret''
   \<and> fst (fetch new_URL
        (example_request ''GET'' ''/api/comments/all'' [(''secret'', ''kv-secret-1'')] None)
        kv_env) = json_response 401 (ErrorJson (js ''Unauthorized''))"
  by (simp add: fetch_def getAllComments_def resolve_spec_def adminSecret_def unauthorized_def
        example_request_def kv_env_def)

section \<open>Validation of submissions\<close>

lemma fetch_get_route:
  "method' request = js ''GET'' \<Longrightarrow> pathname request = js ''/api/comments'' \<Longrightarrow>
   fetch new_URL request env = getComments new_URL request env"
  by (simp add: fetch_def)

lemma fetch_post_route:
  "method' request = js ''POST'' \<Longrightarrow> pathname request = js ''/api/comments'' \<Longrightarrow>
   fetch new_URL request env = createComment new_URL request env"
  by (simp add: fetch_def)

lemma page_errors:
  "length (if \<not> truthy p then es @ [m1] else if \<not> isValidUrl U p then es @ [m2] else es) =
   length es + of_bool (\<not> page_url_ok U p)"
  by (simp add: page_url_ok_def isValidUrl_def)

lemma text_errors:
  "length (if \<not> truthy v then es @ [m1]
           else (case v of
              JStr s \<Rightarrow> if length (trim s) = 0 then es @ [m2]
                        else if length (trim s) > limit then es @ [m3] else es
            | _ \<Rightarrow> es @ [m2])) =
   length es + of_bool (\<not> text_ok limit v)"
  by (cases v) (auto simp: text_ok_def Suc_le_eq)

lemma validation_errors_count:
  "length (validation_errors new_URL p a c) =
   of_bool (\<not> page_url_ok new_URL p) + of_bool (\<not> text_ok 100 a) + of_bool (\<not> text_ok 1000 c)"
  unfolding validation_errors_def Let_def
  by (simp only: text_errors page_errors) simp

lemma get_prop_total:
  "get_prop b k = Some v \<Longrightarrow> \<exists>w. get_prop b k' = Some w"
  by (cases b) simp_all

lemma createComment_invalid:
  assumes "json request = Some b"
    and "get_prop b (js ''page_url'') = Some p"
    and "get_prop b (js ''author_name'') = Some a"
    and "get_prop b (js ''comment_content'') = Some c"
    and "validation_errors new_URL p a c \<noteq> []"
  shows "createComment new_URL request env =
     (json_response 400 (ErrorJson (join (js ''; '') (validation_errors new_URL p a c))), env)"
  using assms by (simp add: createComment_def try_createComment_def)


lemma page_chain:
  "(if \<not> truthy p then es @ [m1] else if \<not> isValidUrl U p then es @ [m2] else es) =
   es @ (if \<not> truthy p then [m1] else if \<not> isValidUrl U p then [m2] else [])"
  by simp

lemma text_chain:
  "(if \<not> truthy v then es @ [m1]
    else (case v of
       JStr s \<Rightarrow> if length (trim s) = 0 then es @ [m2]
                 else if length (trim s) > limit then es @ [m3] else es
     | _ \<Rightarrow> es @ [m2])) =
   es @ (if \<not> truthy v then [m1]
         else (case v of
            JStr s \<Rightarrow> if length (trim s) = 0 then [m2]
                      else if length (trim s) > limit then [m3] else []
          | _ \<Rightarrow> [m2]))"
  by (cases v) simp_all

lemma validation_errors_split:
  "\<exists>ep ea ec. validation_errors new_URL p a c = ep @ ea @ ec
     \<and> length ep = of_bool (\<not> page_url_ok new_URL p) \<and> set ep \<subseteq> set page_url_messages
     \<and> length ea = of_bool (\<not> text_ok 100 a) \<and> set ea \<subseteq> set author_name_messages
     \<and> length ec = of_bool (\<not> text_ok 1000 c) \<and> set ec \<subseteq> set comment_content_messages"
proof -
  define ep where "ep =
    (if \<not> truthy p then [js ''page_url is required'']
     else if \<not> isValidUrl new_URL p then [js ''Invalid page_url format''] else [])"
  define ea where "ea =
    (if \<not> truthy a then [js ''author_name is required'']
     else (case a of
        JStr s \<Rightarrow> if length (trim s) = 0 then [js ''author_name cannot be empty'']
                  else if length (trim s) > 100
                  then [js ''author_name must be 100 characters or less''] else []
      | _ \<Rightarrow> [js ''author_name cannot be empty'']))"
  define ec where "ec =
    (if \<not> truthy c then [js ''comment_content is required'']
     else (case c of
        JStr s \<Rightarrow> if length (trim s) = 0 then [js ''comment_content cannot be empty'']
                  else if length (trim s) > 1000
                  then [js ''comment_content must be 1000 characters or less''] else []
      | _ \<Rightarrow> [js ''comment_content cannot be empty'']))"
  have whole: "validation_errors new_URL p a c = ep @ ea @ ec"
    unfolding validation_errors_def Let_def ep_def ea_def ec_def
    by (simp only: text_chain page_chain append_Nil) (simp only: append_assoc)
  have lp: "length ep = of_bool (\<not> page_url_ok new_URL p)"
    by (simp add: ep_def page_url_ok_def isValidUrl_def)
  have la: "length ea = of_bool (\<not> text_ok 100 a)"
    by (cases a) (auto simp: ea_def text_ok_def Suc_le_eq)
  have lc: "length ec = of_bool (\<not> text_ok 1000 c)"
    by (cases c) (auto simp: ec_def text_ok_def Suc_le_eq)
  have sp: "set ep \<subseteq> set page_url_messages"
    by (auto simp: ep_def page_url_messages_def)
  have sa: "set ea \<subseteq> set author_name_messages"
    by (cases a) (auto simp: ea_def author_name_messages_def)
  have sc: "set ec \<subseteq> set comment_content_messages"
    by (cases c) (auto simp: ec_def comment_content_messages_def)
  show ?thesis
    using whole lp la lc sp sa sc by blast
qed

text \<open>
  C7. For every submission to POST /api/comments (a JSON body whose three fields can be
  read) that breaks a rule, every rule is checked: the list of messages consists of the
  messages for \<^verbatim>\<open>page_url\<close>, then those for \<^verbatim>\<open>author_name\<close>, then those for
  \<^verbatim>\<open>comment_content\<close>, one message for each field whose rule is broken and none for a field
  whose rule holds; the answer is 400 with the messages joined by \<^verbatim>\<open>; \<close> and the environment
  is unchanged, so no statement reaches the store.
\<close>

theorem createComment_reports_every_violation:
  assumes "method' request = js ''POST''" and "pathname request = js ''/api/comments''"
    and "json request = Some b"
    and "get_prop b (js ''page_url'') = Some p"
    and "get_prop b (js ''author_name'') = Some a"
    and "get_prop b (js ''comment_content'') = Some c"
    and "\<not> (page_url_ok new_URL p \<and> text_ok 100 a \<and> text_ok 1000 c)"
  shows
    "fetch new_URL request env =
       (json_response 400 (ErrorJson (join (js ''; '') (validation_errors new_URL p a c))), env)
     \<and> (\<exists>ep ea ec. validation_errors new_URL p a c = ep @ ea @ ec
          \<and> length ep = of_bool (\<not> page_url_ok new_URL p) \<and> set ep \<subseteq> set page_url_messages
          \<and> length ea = of_bool (\<not> text_ok 100 a) \<and> set ea \<subseteq> set author_name_messages
          \<and> length ec = of_bool (\<not> text_ok 1000 c)
          \<and> set ec \<subseteq> set comment_content_messages)"
proof -
  have "length (validation_errors new_URL p a c) \<noteq> 0"
    using assms(7) by (auto simp: validation_errors_count)
  then have "validation_errors new_URL p a c \<noteq> []"
    by simp
  then have "createComment new_URL request env =
      (json_response 400 (ErrorJson (join (js ''; '') (validation_errors new_URL p a c))), env)"
    using assms(3-6) by (rule createComment_invalid [rotated 4])
  then show ?thesis
    using validation_errors_split [of new_URL p a c] assms(1,2)
    by (simp add: fetch_post_route)
qed

theorem createComment_reports_every_violation_witness:
  "fetch simple_http_url
     (example_request ''POST'' ''/api/comments'' []
        (Some (example_body ''not a url'' [] ''   ''))) dev_env =
   (json_response 400
      (ErrorJson (js ''Invalid page_url format; author_name is required; comment_content cannot be empty'')),
    dev_env)"
proof -
  let ?b = "example_body ''not a url'' [] ''   ''"
  let ?r = "example_request ''POST'' ''/api/comments'' [] (Some ?b)"
  have r: "method' ?r = js ''POST''" "pathname ?r = js ''/api/comments''" "json ?r = Some ?b"
    by (simp_all add: example_request_def)
  have p: "get_prop ?b (js ''page_url'') = Some (JStr (js ''not a url''))"
    and a: "get_prop ?b (js ''author_name'') = Some (JStr (js []))"
    and c: "get_prop ?b (js ''comment_content'') = Some (JStr (js ''   ''))"
    by (simp_all add: example_body_def)
  have bad: "\<not> (page_url_ok simple_http_url (JStr (js ''not a url''))
      \<and> text_ok 100 (JStr (js [])) \<and> text_ok 1000 (JStr (js ''   '')))"
    by (simp add: text_ok_def)
  have blank: "trim (js ''   '') = []"
    by (simp add: trim_def isWhiteSpace_def js_def)
  have errs: "validation_errors simple_http_url (JStr (js ''not a url'')) (JStr (js []))
       (JStr (js ''   '')) =
     [js ''Invalid page_url format'', js ''author_name is required'',
      js ''comment_content cannot be empty'']"
    by (simp add: validation_errors_def isValidUrl_def simple_http_url_def blank)
  have "fetch simple_http_url ?r dev_env =
      (json_response 400
         (ErrorJson (join (js ''; '')
            (validation_errors simple_http_url (JStr (js ''not a url'')) (JStr (js []))
               (JStr (js ''   ''))))), dev_env)"
    using createComment_reports_every_violation [OF r p a c bad, of dev_env]
    by (rule conjunct1)
  then show ?thesis
    unfolding errs by (simp add: js_def)
qed

text \<open>
  The check of \<^verbatim>\<open>page_url\<close>, for every URL parser: on GET and on POST /api/comments a
  \<^verbatim>\<open>page_url\<close> that is missing, empty or rejected by the parser is answered with 400 and the
  environment is unchanged; on GET an accepted one is never answered with 400, and on POST the
  answer 201 is only given for an accepted one.
\<close>

lemma page_url_check:
  assumes "pathname request = js ''/api/comments''"
  shows
    "(method' request = js ''GET''
        \<and> \<not> (\<exists>u. map_of (searchParams request) (js ''page_url'') = Some u
                  \<and> page_url_ok new_URL (JStr u)) \<longrightarrow>
        status (fst (fetch new_URL request env)) = 400 \<and> snd (fetch new_URL request env) = env)
   \<and> (method' request = js ''GET''
        \<and> (\<exists>u. map_of (searchParams request) (js ''page_url'') = Some u
                \<and> page_url_ok new_URL (JStr u)) \<longrightarrow>
        status (fst (fetch new_URL request env)) \<noteq> 400)
   \<and> (method' request = js ''POST'' \<and> json request = Some b
        \<and> get_prop b (js ''page_url'') = Some v \<and> \<not> page_url_ok new_URL v \<longrightarrow>
        status (fst (fetch new_URL request env)) = 400 \<and> snd (fetch new_URL request env) = env)
   \<and> (method' request = js ''POST'' \<and> status (fst (fetch new_URL request env)) = 201 \<longrightarrow>
        (\<exists>b v. json request = Some b \<and> get_prop b (js ''page_url'') = Some v
               \<and> page_url_ok new_URL v))"
proof -
  let ?accepted = "\<exists>u. map_of (searchParams request) (js ''page_url'') = Some u
      \<and> page_url_ok new_URL (JStr u)"
  have get_bad: "\<not> ?accepted \<Longrightarrow>
      status (fst (getComments new_URL request env)) = 400
      \<and> snd (getComments new_URL request env) = env"
    by (cases "map_of (searchParams request) (js ''page_url'')")
       (auto simp: getComments_def isValidUrl_def json_response_def page_url_ok_def)
  have get_ok: "?accepted \<Longrightarrow> status (fst (getComments new_URL request env)) \<noteq> 400"
    by (auto simp: getComments_def isValidUrl_def json_response_def select_by_page_def
        page_url_ok_def split: if_splits)
  have post_bad: "status (fst (createComment new_URL request env)) = 400
      \<and> snd (createComment new_URL request env) = env"
    if b: "json request = Some b" and v: "get_prop b (js ''page_url'') = Some v"
      and bad: "\<not> page_url_ok new_URL v" for b v
  proof -
    obtain a c where a: "get_prop b (js ''author_name'') = Some a"
      and c: "get_prop b (js ''comment_content'') = Some c"
      using get_prop_total [OF v] by blast
    have "validation_errors new_URL v a c \<noteq> []"
      using bad validation_errors_count [of new_URL v a c] by auto
    then show ?thesis
      using createComment_invalid [OF b v a c] by (simp add: json_response_def)
  qed
  have post_ok: "\<exists>b v. json request = Some b \<and> get_prop b (js ''page_url'') = Some v
      \<and> page_url_ok new_URL v"
    if created: "status (fst (createComment new_URL request env)) = 201"
  proof -
    obtain b where b: "json request = Some b"
      using created
      by (cases "json request")
         (simp_all add: createComment_def try_createComment_def json_response_def)
    obtain v where v: "get_prop b (js ''page_url'') = Some v"
      using created b
      by (cases "get_prop b (js ''page_url'')")
         (simp_all add: createComment_def try_createComment_def json_response_def)
    have "page_url_ok new_URL v"
      using post_bad [OF b v] created by auto
    then show ?thesis
      using b v by blast
  qed
  show ?thesis
  proof (intro conjI impI)
    assume "method' request = js ''GET'' \<and> \<not> ?accepted"
    then have "fetch new_URL request env = getComments new_URL request env" and "\<not> ?accepted"
      using assms by (simp_all add: fetch_get_route)
    then show "status (fst (fetch new_URL request env)) = 400"
      and "snd (fetch new_URL request env) = env"
      using get_bad by simp_all
  next
    assume "method' request = js ''GET'' \<and> ?accepted"
    then have "fetch new_URL request env = getComments new_URL request env" and "?accepted"
      using assms by (simp_all add: fetch_get_route)
    then show "status (fst (fetch new_URL request env)) \<noteq> 400"
      using get_ok by simp
  next
    assume h: "method' request = js ''POST'' \<and> json request = Some b
        \<and> get_prop b (js ''page_url'') = Some v \<and> \<not> page_url_ok new_URL v"
    then have "fetch new_URL request env = createComment new_URL request env"
      using assms by (simp add: fetch_post_route)
    then show "status (fst (fetch new_URL request env)) = 400"
      and "snd (fetch new_URL request env) = env"
      using post_bad [of b v] h by simp_all
  next
    assume h: "method' request = js ''POST'' \<and> status (fst (fetch new_URL request env)) = 201"
    then have "fetch new_URL request env = createComment new_URL request env"
      using assms by (simp add: fetch_post_route)
    then show "\<exists>b v. json request = Some b \<and> get_prop b (js ''page_url'') = Some v
        \<and> page_url_ok new_URL v"
      using post_ok h by simp
  qed
qed

section \<open>Listing the comments of a page\<close>

lemma created_at_truncate [simp]: "created_at (comment.truncate r) = created_at r"
  by (simp add: comment.truncate_def)

lemma id_truncate [simp]: "id' (comment.truncate r) = id' r"
  by (simp add: comment.truncate_def)





lemma getComments_ok:
  assumes "map_of (searchParams request) (js ''page_url'') = Some pageUrl"
    and "pageUrl \<noteq> []" and "new_URL (JStr pageUrl)" and "up (DB env)"
  shows "getComments new_URL request env =
     (json_response 200
        (CommentsJson
           (map comment.truncate
              (by_created_at_then_id (filter (approved_on pageUrl) (rows (DB env)))))
           (length (filter (approved_on pageUrl) (rows (DB env))))),
      env\<lparr>DB := executed (SelectByPage pageUrl) (DB env)\<rparr>)"
  using assms by (simp add: getComments_def isValidUrl_def select_by_page_def)




section \<open>Posting and then listing\<close>

lemma fold_max_ge: "s \<le> fold max xs (s::nat)"
  by (induction xs arbitrary: s) (auto intro: order_trans [OF max.cobounded2])

lemma fold_max_mem: "x \<in> set xs \<Longrightarrow> x \<le> fold max xs (s::nat)"
proof (induction xs arbitrary: s)
  case Nil
  then show ?case by simp
next
  case (Cons y ys)
  show ?case
  proof (cases "x = y")
    case True
    have "y \<le> max y s" by simp
    also have "\<dots> \<le> fold max ys (max y s)" by (rule fold_max_ge)
    finally show ?thesis using True by simp
  next
    case False
    then show ?thesis using Cons by simp
  qed
qed

lemma find_new:
  "\<forall>r \<in> set xs. \<not> P r \<Longrightarrow> P y \<Longrightarrow> find P (xs @ [y]) = Some y"
  by (induction xs) simp_all

lemma insert_then_select:
  assumes "up db"
  shows "\<exists>n db'. insert_comment p a c db = (Some n, db')
     \<and> up db'
     \<and> rows db' = rows db @ [\<lparr>id' = n, author_name = a, comment_content = c,
           created_at = clock db, page_url = p, status' = js ''approved''\<rparr>]
     \<and> fst (select_by_id n db') = Some (Some \<lparr>id' = n, author_name = a, comment_content = c,
           created_at = clock db, page_url = p\<rparr>)"
proof -
  define n where "n = Suc (fold max (map id' (rows db)) (seq db))"
  have fresh: "\<forall>r \<in> set (rows db). \<not> id' r = n"
  proof
    fix r assume "r \<in> set (rows db)"
    then have "id' r \<le> fold max (map id' (rows db)) (seq db)"
      by (intro fold_max_mem) simp
    then show "\<not> id' r = n"
      by (simp add: n_def)
  qed
  show ?thesis
    using assms find_new [OF fresh, of "\<lparr>id' = n, author_name = a, comment_content = c,
           created_at = clock db, page_url = p, status' = js ''approved''\<rparr>"]
    by (simp add: insert_comment_def select_by_id_def executed_def Let_def n_def [symmetric]
        comment.truncate_def)
qed

lemma validation_errors_valid:
  "page_url_ok new_URL p \<Longrightarrow> text_ok 100 a \<Longrightarrow> text_ok 1000 c \<Longrightarrow>
   validation_errors new_URL p a c = []"
  using validation_errors_count [of new_URL p a c] by simp

lemma createComment_valid:
  assumes "json request = Some b"
    and "get_prop b (js ''page_url'') = Some (JStr p)"
    and "get_prop b (js ''author_name'') = Some (JStr a)"
    and "get_prop b (js ''comment_content'') = Some (JStr c)"
    and "page_url_ok new_URL (JStr p)" and "text_ok 100 (JStr a)" and "text_ok 1000 (JStr c)"
    and "up (DB env)"
  shows "\<exists>n env'. createComment new_URL request env =
       (json_response 201 (CreatedJson (Some
          \<lparr>id' = n, author_name = sanitizeInput a, comment_content = sanitizeInput c,
           created_at = clock (DB env), page_url = sanitizeInput p\<rparr>)), env')
     \<and> up (DB env')
     \<and> rows (DB env') = rows (DB env) @
          [\<lparr>id' = n, author_name = sanitizeInput a, comment_content = sanitizeInput c,
            created_at = clock (DB env), page_url = sanitizeInput p, status' = js ''approved''\<rparr>]"
proof -
  obtain n db' where ins: "insert_comment (sanitizeInput p) (sanitizeInput a) (sanitizeInput c)
        (DB env) = (Some n, db')"
    and up': "up db'"
    and rows': "rows db' = rows (DB env) @
          [\<lparr>id' = n, author_name = sanitizeInput a, comment_content = sanitizeInput c,
            created_at = clock (DB env), page_url = sanitizeInput p, status' = js ''approved''\<rparr>]"
    and sel: "fst (select_by_id n db') = Some (Some
          \<lparr>id' = n, author_name = sanitizeInput a, comment_content = sanitizeInput c,
           created_at = clock (DB env), page_url = sanitizeInput p\<rparr>)"
    using insert_then_select [OF assms(8)] by blast
  obtain db'' where sel': "select_by_id n db' = (Some (Some
          \<lparr>id' = n, author_name = sanitizeInput a, comment_content = sanitizeInput c,
           created_at = clock (DB env), page_url = sanitizeInput p\<rparr>), db'')"
    and db'': "db'' = executed (SelectById n) db'"
    using sel by (cases "select_by_id n db'") (simp add: select_by_id_def)
  have "createComment new_URL request env =
       (json_response 201 (CreatedJson (Some
          \<lparr>id' = n, author_name = sanitizeInput a, comment_content = sanitizeInput c,
           created_at = clock (DB env), page_url = sanitizeInput p\<rparr>)), env\<lparr>DB := db''\<rparr>)"
    using assms(1-4) validation_errors_valid [OF assms(5-7)] ins sel'
    by (simp add: createComment_def try_createComment_def sanitizeInput_trim)
  moreover have "up (DB (env\<lparr>DB := db''\<rparr>))"
    using up' by (simp add: db'' executed_def)
  moreover have "rows (DB (env\<lparr>DB := db''\<rparr>)) = rows (DB env) @
          [\<lparr>id' = n, author_name = sanitizeInput a, comment_content = sanitizeInput c,
            created_at = clock (DB env), page_url = sanitizeInput p, status' = js ''approved''\<rparr>]"
    using rows' by (simp add: db'' executed_def)
  ultimately show ?thesis
    by blast
qed

text \<open>
  Where escaping leaves the page URL as it is, the round trip works: the created comment is
  in the list that GET returns for that page URL, and its author name and content are the
  sanitized form of what was submitted.
\<close>

lemma post_then_get_includes_comment:
  assumes "json request = Some b"
    and "get_prop b (js ''page_url'') = Some (JStr p)"
    and "get_prop b (js ''author_name'') = Some (JStr a)"
    and "get_prop b (js ''comment_content'') = Some (JStr c)"
    and "page_url_ok new_URL (JStr p)" and "text_ok 100 (JStr a)" and "text_ok 1000 (JStr c)"
    and "up (DB env)"
    and "sanitizeInput p = p"
    and "map_of (searchParams request') (js ''page_url'') = Some p"
  shows "\<exists>created results.
      fst (createComment new_URL request env) = json_response 201 (CreatedJson (Some created))
      \<and> fst (getComments new_URL request' (snd (createComment new_URL request env))) =
          json_response 200 (CommentsJson results (length results))
      \<and> created \<in> set results
      \<and> author_name created = sanitizeInput a
      \<and> comment_content created = sanitizeInput c"
proof -
  let ?created = "\<lambda>n. \<lparr>id' = n, author_name = sanitizeInput a, comment_content = sanitizeInput c,
           created_at = clock (DB env), page_url = sanitizeInput p\<rparr>"
  let ?row = "\<lambda>n. \<lparr>id' = n, author_name = sanitizeInput a, comment_content = sanitizeInput c,
           created_at = clock (DB env), page_url = sanitizeInput p, status' = js ''approved''\<rparr>"
  obtain n env' where post: "createComment new_URL request env =
       (json_response 201 (CreatedJson (Some (?created n))), env')"
    and up': "up (DB env')"
    and rows': "rows (DB env') = rows (DB env) @ [?row n]"
    using createComment_valid [OF assms(1-8)] by blast
  have p: "p \<noteq> []" "new_URL (JStr p)"
    using assms(5) by (simp_all add: page_url_ok_def)
  let ?results = "map comment.truncate
      (by_created_at_then_id (filter (approved_on p) (rows (DB env'))))"
  have get: "getComments new_URL request' env' =
      (json_response 200 (CommentsJson ?results (length (filter (approved_on p) (rows (DB env'))))),
       env'\<lparr>DB := executed (SelectByPage p) (DB env')\<rparr>)"
    using assms(10) p up' by (rule getComments_ok)
  have "?row n \<in> set (filter (approved_on p) (rows (DB env')))"
    by (simp add: rows' approved_on_def assms(9))
  then have "comment.truncate (?row n) \<in> set ?results"
    by simp
  then have "?created n \<in> set ?results"
    by (simp add: comment.truncate_def)
  then show ?thesis
    using post get by (intro exI [of _ "?created n"] exI [of _ ?results]) simp
qed

text \<open>
  C4 fails on the code. A valid submission with the page URL \<^verbatim>\<open>https://example.com/it's\<close> is
  stored under the escaped key \<^verbatim>\<open>https://example.com/it&#39;s\<close>; the GET for the same page URL
  compares the unescaped value and returns no comment.
\<close>

theorem post_then_get_loses_quoted_page_url:
  "simple_http_url (JStr (js ''https://example.com/it's''))
   \<and> status (fst (fetch simple_http_url
        (example_request ''POST'' ''/api/comments'' []
           (Some (example_body ''https://example.com/it's'' ''Ann'' ''Hello''))) empty_env)) = 201
   \<and> map page_url (rows (DB (snd (fetch simple_http_url
        (example_request ''POST'' ''/api/comments'' []
           (Some (example_body ''https://example.com/it's'' ''Ann'' ''Hello''))) empty_env)))) =
       [js ''https://example.com/it&#39;s'']
   \<and> body (fst (fetch simple_http_url
        (example_request ''GET'' ''/api/comments'' [(''page_url'', ''https://example.com/it's'')] None)
        (snd (fetch simple_http_url
           (example_request ''POST'' ''/api/comments'' []
              (Some (example_body ''https://example.com/it's'' ''Ann'' ''Hello''))) empty_env)))) =
       CommentsJson [] 0"
proof -
  let ?u = "''https://example.com/it's''"
  let ?b = "example_body ?u ''Ann'' ''Hello''"
  let ?post = "example_request ''POST'' ''/api/comments'' [] (Some ?b)"
  let ?get = "example_request ''GET'' ''/api/comments'' [(''page_url'', ?u)] None"
  have ok: "simple_http_url (JStr (js ?u))"
    by (simp add: simple_http_url_def) (simp add: js_def isLower_def)
  have post: "method' ?post = js ''POST''" "pathname ?post = js ''/api/comments''"
    "json ?post = Some ?b"
    by (simp_all add: example_request_def)
  have fields: "get_prop ?b (js ''page_url'') = Some (JStr (js ?u))"
    "get_prop ?b (js ''author_name'') = Some (JStr (js ''Ann''))"
    "get_prop ?b (js ''comment_content'') = Some (JStr (js ''Hello''))"
    by (simp_all add: example_body_def)
  have valid: "page_url_ok simple_http_url (JStr (js ?u))"
    "text_ok 100 (JStr (js ''Ann''))" "text_ok 1000 (JStr (js ''Hello''))"
    using ok by (simp_all add: page_url_ok_def text_ok_def trim_def isWhiteSpace_def js_def)
  have up: "up (DB empty_env)"
    by (simp add: empty_env_def example_db_def)
  have stored: "sanitizeInput (js ?u) = js ''https://example.com/it&#39;s''"
    by (simp add: sanitizeInput_def replace_g_def trim_def isWhiteSpace_def js_def)
  obtain n env' where created: "createComment simple_http_url ?post empty_env =
       (json_response 201 (CreatedJson (Some
          \<lparr>id' = n, author_name = sanitizeInput (js ''Ann''),
           comment_content = sanitizeInput (js ''Hello''),
           created_at = clock (DB empty_env), page_url = sanitizeInput (js ?u)\<rparr>)), env')"
    and up': "up (DB env')"
    and rows': "rows (DB env') = rows (DB empty_env) @
          [\<lparr>id' = n, author_name = sanitizeInput (js ''Ann''),
            comment_content = sanitizeInput (js ''Hello''),
            created_at = clock (DB empty_env), page_url = sanitizeInput (js ?u),
            status' = js ''approved''\<rparr>]"
    using createComment_valid [OF post(3) fields valid up] by blast
  have posted: "fetch simple_http_url ?post empty_env =
      (json_response 201 (CreatedJson (Some
          \<lparr>id' = n, author_name = sanitizeInput (js ''Ann''),
           comment_content = sanitizeInput (js ''Hello''),
           created_at = clock (DB empty_env), page_url = sanitizeInput (js ?u)\<rparr>)), env')"
    using post created by (simp add: fetch_post_route)
  have rows_env': "rows (DB env') =
          [\<lparr>id' = n, author_name = sanitizeInput (js ''Ann''),
            comment_content = sanitizeInput (js ''Hello''),
            created_at = 1000, page_url = js ''https://example.com/it&#39;s'',
            status' = js ''approved''\<rparr>]"
    using rows' by (simp add: stored empty_env_def example_db_def)
  have get: "method' ?get = js ''GET''" "pathname ?get = js ''/api/comments''"
    "map_of (searchParams ?get) (js ''page_url'') = Some (js ?u)"
    by (simp_all add: example_request_def)
  have ne: "js ?u \<noteq> []"
    by simp
  have "fetch simple_http_url ?get env' = getComments simple_http_url ?get env'"
    using get by (simp add: fetch_get_route)
  then have got: "body (fst (fetch simple_http_url ?get env')) = CommentsJson [] 0"
    using getComments_ok [where new_URL = simple_http_url, OF get(3) ne ok up']
    by (simp add: rows_env' approved_on_def json_response_def)
  show ?thesis
    using ok got by (simp add: posted rows_env' json_response_def)
qed

section \<open>Which page URLs are accepted\<close>

lemma no_scheme: "url_scheme (js ''not a url'') = None"
  by (simp add: url_scheme_def url_input_def isC0OrSpace_def isTabOrNewline_def isSchemeChar_def
      isAlpha_def isDigit_def js_def)

lemma mailto_scheme: "url_scheme (js ''mailto:someone'') = Some (js ''mailto'', js ''someone'')"
  by (simp add: url_scheme_def url_input_def isC0OrSpace_def isTabOrNewline_def isSchemeChar_def
      isAlpha_def isDigit_def toLower_def js_def)

lemma https_scheme:
  "url_scheme (js ''https://example.com/post'') = Some (js ''https'', js ''//example.com/post'')"
  by (simp add: url_scheme_def url_input_def isC0OrSpace_def isTabOrNewline_def isSchemeChar_def
      isAlpha_def isDigit_def toLower_def js_def)

lemma rejects_no_scheme: "\<not> whatwg_URL beyond (JStr (js ''not a url''))"
  by (simp add: whatwg_URL_def no_scheme)

lemma accepts_mailto: "whatwg_URL beyond (JStr (js ''mailto:someone''))"
  by (simp add: whatwg_URL_def mailto_scheme special_schemes_def) (simp add: js_def)

lemma accepts_https: "whatwg_URL simple_http_url (JStr (js ''https://example.com/post''))"
  by (simp add: whatwg_URL_def https_scheme special_schemes_def simple_http_url_def)
     (simp add: js_def isLower_def)

lemma mailto_no_host: "\<not> scheme_and_host_present (js ''mailto:someone'')"
  by (simp add: scheme_and_host_present_def mailto_scheme)

lemma whatwg_URL_needs_scheme: "whatwg_URL beyond (JStr s) \<Longrightarrow> url_scheme s \<noteq> None"
  by (auto simp: whatwg_URL_def split: option.splits)

text \<open>
  C9 (as amended). On GET and on POST /api/comments a \<^verbatim>\<open>page_url\<close> is accepted only if it is
  present, not empty and the URL parser accepts it, for which a scheme is necessary: every
  other \<^verbatim>\<open>page_url\<close>, the string \<^verbatim>\<open>not a url\<close> among them, is answered with 400 and the
  environment is unchanged; on GET an accepted one is never answered with 400, and on POST the
  answer 201 is only given for an accepted one. A host is not required.
\<close>

theorem page_url_must_parse:
  assumes "pathname request = js ''/api/comments''"
  shows
    "(method' request = js ''GET''
        \<and> \<not> (\<exists>u. map_of (searchParams request) (js ''page_url'') = Some u
                  \<and> page_url_ok (whatwg_URL beyond) (JStr u)) \<longrightarrow>
        status (fst (fetch (whatwg_URL beyond) request env)) = 400
        \<and> snd (fetch (whatwg_URL beyond) request env) = env)
   \<and> (method' request = js ''GET''
        \<and> (\<exists>u. map_of (searchParams request) (js ''page_url'') = Some u
                \<and> page_url_ok (whatwg_URL beyond) (JStr u)) \<longrightarrow>
        status (fst (fetch (whatwg_URL beyond) request env)) \<noteq> 400)
   \<and> (method' request = js ''POST'' \<and> json request = Some b
        \<and> get_prop b (js ''page_url'') = Some v \<and> \<not> page_url_ok (whatwg_URL beyond) v \<longrightarrow>
        status (fst (fetch (whatwg_URL beyond) request env)) = 400
        \<and> snd (fetch (whatwg_URL beyond) request env) = env)
   \<and> (method' request = js ''POST''
        \<and> status (fst (fetch (whatwg_URL beyond) request env)) = 201 \<longrightarrow>
        (\<exists>b v. json request = Some b \<and> get_prop b (js ''page_url'') = Some v
               \<and> page_url_ok (whatwg_URL beyond) v))
   \<and> (page_url_ok (whatwg_URL beyond) (JStr s) \<longrightarrow> url_scheme s \<noteq> None)
   \<and> \<not> page_url_ok (whatwg_URL beyond) (JStr (js ''not a url''))"
  using page_url_check [OF assms, of "whatwg_URL beyond" env b v]
    whatwg_URL_needs_scheme [of beyond s] rejects_no_scheme [of beyond]
  by (simp add: page_url_ok_def)

theorem page_url_must_parse_witness:
  "status (fst (fetch (whatwg_URL simple_http_url)
        (example_request ''GET'' ''/api/comments'' [(''page_url'', ''not a url'')] None)
        dev_env)) = 400
   \<and> status (fst (fetch (whatwg_URL simple_http_url)
        (example_request ''POST'' ''/api/comments'' []
           (Some (example_body ''not a url'' ''Ann'' ''Hello''))) dev_env)) = 400
   \<and> status (fst (fetch (whatwg_URL simple_http_url)
        (example_request ''GET'' ''/api/comments'' [(''page_url'', ''https://example.com/post'')]
           None) dev_env)) \<noteq> 400"
proof -
  let ?g = "example_request ''GET'' ''/api/comments'' [(''page_url'', ''not a url'')] None"
  let ?h = "example_request ''GET'' ''/api/comments'' [(''page_url'', ''https://example.com/post'')]
      None"
  let ?b = "example_body ''not a url'' ''Ann'' ''Hello''"
  let ?p = "example_request ''POST'' ''/api/comments'' [] (Some ?b)"
  have bad: "\<not> page_url_ok (whatwg_URL simple_http_url) (JStr (js ''not a url''))"
    by (simp add: page_url_ok_def rejects_no_scheme)
  have good: "page_url_ok (whatwg_URL simple_http_url) (JStr (js ''https://example.com/post''))"
    by (simp add: page_url_ok_def accepts_https)
  have g: "pathname ?g = js ''/api/comments''" "method' ?g = js ''GET''"
    "map_of (searchParams ?g) (js ''page_url'') = Some (js ''not a url'')"
    by (simp_all add: example_request_def)
  have h: "pathname ?h = js ''/api/comments''" "method' ?h = js ''GET''"
    "map_of (searchParams ?h) (js ''page_url'') = Some (js ''https://example.com/post'')"
    by (simp_all add: example_request_def)
  have p: "pathname ?p = js ''/api/comments''" "method' ?p = js ''POST''" "json ?p = Some ?b"
    "get_prop ?b (js ''page_url'') = Some (JStr (js ''not a url''))"
    by (simp_all add: example_request_def example_body_def)
  show ?thesis
    using page_url_must_parse [OF g(1), where beyond = simple_http_url and env = dev_env]
      page_url_must_parse [OF h(1), where beyond = simple_http_url and env = dev_env]
      page_url_must_parse [OF p(1), where beyond = simple_http_url and env = dev_env
        and b = ?b and v = "JStr (js ''not a url'')"]
      bad good g h p
    by simp
qed

text \<open>
  C9 (as stated) fails: \<^verbatim>\<open>mailto:someone\<close> has a scheme and no host, the URL parser accepts
  it, and so do both handlers: the POST answers 201 and the GET answers 200.
\<close>

theorem hostless_page_url_counterexample:
  "\<not> scheme_and_host_present (js ''mailto:someone'')
   \<and> status (fst (fetch (whatwg_URL simple_http_url)
        (example_request ''POST'' ''/api/comments'' []
           (Some (example_body ''mailto:someone'' ''Ann'' ''Hello''))) empty_env)) = 201
   \<and> status (fst (fetch (whatwg_URL simple_http_url)
        (example_request ''GET'' ''/api/comments'' [(''page_url'', ''mailto:someone'')] None)
        empty_env)) = 200"
proof -
  let ?U = "whatwg_URL simple_http_url"
  let ?b = "example_body ''mailto:someone'' ''Ann'' ''Hello''"
  let ?post = "example_request ''POST'' ''/api/comments'' [] (Some ?b)"
  let ?get = "example_request ''GET'' ''/api/comments'' [(''page_url'', ''mailto:someone'')] None"
  have ok: "?U (JStr (js ''mailto:someone''))"
    by (rule accepts_mailto)
  have post: "method' ?post = js ''POST''" "pathname ?post = js ''/api/comments''"
    "json ?post = Some ?b"
    by (simp_all add: example_request_def)
  have fields: "get_prop ?b (js ''page_url'') = Some (JStr (js ''mailto:someone''))"
    "get_prop ?b (js ''author_name'') = Some (JStr (js ''Ann''))"
    "get_prop ?b (js ''comment_content'') = Some (JStr (js ''Hello''))"
    by (simp_all add: example_body_def)
  have valid: "page_url_ok ?U (JStr (js ''mailto:someone''))"
    "text_ok 100 (JStr (js ''Ann''))" "text_ok 1000 (JStr (js ''Hello''))"
    using ok by (simp_all add: page_url_ok_def text_ok_def trim_def isWhiteSpace_def js_def)
  have up: "up (DB empty_env)"
    by (simp add: empty_env_def example_db_def)
  obtain created env' where "createComment ?U ?post empty_env =
      (json_response 201 (CreatedJson (Some created)), env')"
    using createComment_valid [where new_URL = ?U, OF post(3) fields valid up] by blast
  then have posted: "status (fst (fetch ?U ?post empty_env)) = 201"
    using post by (simp add: fetch_post_route json_response_def)
  have get: "method' ?get = js ''GET''" "pathname ?get = js ''/api/comments''"
    "map_of (searchParams ?get) (js ''page_url'') = Some (js ''mailto:someone'')"
    by (simp_all add: example_request_def)
  have ne: "js ''mailto:someone'' \<noteq> []"
    by simp
  have got: "status (fst (fetch ?U ?get empty_env)) = 200"
    using get getComments_ok [where new_URL = ?U, OF get(3) ne ok up]
    by (simp add: fetch_get_route json_response_def)
  show ?thesis
    using mailto_no_host posted got by (intro conjI)
qed

end
